theory Spec2Isabelle
  imports Main "HOL-Library.AList" "HOL-Library.Char_ord" "HOL-Library.List_Lexorder"
begin

section \<open>Strings\<close>

text \<open>
  Cells, names and messages are \<^typ>\<open>string\<close>s; a character is a code point below
  256. The three string methods the compiler calls are written out on these characters:
  \<open>strip\<close> removes what Python's \<open>str.strip()\<close> removes, the characters for which
  \<open>str.isspace()\<close> holds (tab to carriage return, the four separators \<open>0x1C\<close> to
  \<open>0x1F\<close>, the space, \<open>U+0085\<close> and \<open>U+00A0\<close>); \<open>lower\<close> is \<open>str.lower()\<close>, which
  maps \<open>A\<close>..\<open>Z\<close> and the capitals \<open>U+00C0\<close>..\<open>U+00DE\<close> (but for the sign
  \<open>U+00D7\<close>) to the character 32 code points on; \<open>split_on c\<close> is \<open>str.split(c)\<close>
  for a one-character separator.
\<close>

definition is_space :: "char \<Rightarrow> bool" where
  "is_space c = (c \<in> set [CHR '' '', CHR 0x09, CHR 0x0A, CHR 0x0B, CHR 0x0C, CHR 0x0D,
                           CHR 0x1C, CHR 0x1D, CHR 0x1E, CHR 0x1F, CHR 0x85, CHR 0xA0])"

definition strip :: "string \<Rightarrow> string" where
  "strip s = rev (dropWhile is_space (rev (dropWhile is_space s)))"

definition lower_char :: "char \<Rightarrow> char" where
  "lower_char c =
     (let n = (of_char c :: nat) in
      if (65 \<le> n \<and> n \<le> 90) \<or> (192 \<le> n \<and> n \<le> 222 \<and> n \<noteq> 215)
      then char_of (n + 32)
      else c)"

definition lower :: "string \<Rightarrow> string" where
  "lower s = map lower_char s"

fun split_on :: "char \<Rightarrow> string \<Rightarrow> string list" where
  "split_on c [] = [[]]"
| "split_on c (x # xs) =
     (if x = c then [] # split_on c xs
      else (case split_on c xs of w # ws \<Rightarrow> (x # w) # ws | [] \<Rightarrow> [[x]]))"

text \<open>\<open>class_qualifier.split(".")[-1]\<close>: the final dot-separated component.\<close>

definition final_component :: "string \<Rightarrow> string" where
  "final_component qualifier = last (split_on CHR ''.'' qualifier)"

section \<open>Locations and errors\<close>

text \<open>
  Modelled from the spec: the class \<open>errors.InputLocation\<close> is not among the sources.
  The spec gives a location as \<open>{path, line (1-based), cell (1-based), has_cell}\<close>;
  \<open>advance_line()\<close> resets the cell to the start of the row and increments the line,
  \<open>advance_cell()\<close> increments the cell and \<open>set_cell(n)\<close> jumps to cell \<open>n\<close>.
\<close>

record input_location =
  loc_path :: string
  loc_line :: nat
  loc_cell :: nat
  loc_has_cell :: bool

definition InputLocation :: "string \<Rightarrow> bool \<Rightarrow> input_location" where
  "InputLocation source_path has_cell =
     \<lparr>loc_path = source_path, loc_line = 1, loc_cell = 1, loc_has_cell = has_cell\<rparr>"

definition advance_line :: "input_location \<Rightarrow> input_location" where
  "advance_line l = l\<lparr>loc_line := loc_line l + 1, loc_cell := 1\<rparr>"

definition advance_cell :: "input_location \<Rightarrow> input_location" where
  "advance_cell l = l\<lparr>loc_cell := loc_cell l + 1\<rparr>"

definition set_cell :: "nat \<Rightarrow> input_location \<Rightarrow> input_location" where
  "set_cell n l = l\<lparr>loc_cell := n\<rparr>"

text \<open>
  Every \<open>raise\<close> of the source, every failing \<open>assert\<close> and every failing index or
  attribute access is an \<open>error\<close> value. A message is kept as the format template and
  the arguments of Python's \<open>template % args\<close>; \<open>Str\<close> is an argument of \<open>%s\<close>,
  \<open>Repr\<close> one of \<open>%r\<close>, \<open>Num\<close> one of \<open>%d\<close>, \<open>Seq\<close> a list and \<open>Keys\<close> a
  dictionary's \<open>keys()\<close> under \<open>%s\<close>, \<open>Exc\<close> an exception under \<open>%s\<close>. The third
  component is the location the error carries, the fourth the optional supplementary
  label and location (\<open>"initial declaration"\<close>).
\<close>

datatype error_kind =
    CutplaceError | CidSyntaxError | FieldSyntaxError | CheckSyntaxError
  | DataFormatSyntaxError | DataFormatValueError | FieldLookupError | FieldValueError
  | NameError | AssertionError | IndexError | AttributeError | TypeError | StopIteration
  | OtherError string

datatype error =
    Error (err_kind: error_kind) (err_message: message) (err_location: "input_location option")
          (err_see_also: "(string \<times> input_location option) option")
and message = Msg string "fmt_arg list"
and fmt_arg = Str string | Repr string | Num int | Seq "string list" | Keys "string list"
  | Exc error

definition assertion_failed :: "string \<Rightarrow> error" where
  "assertion_failed text = Error AssertionError (Msg text []) None None"

definition attribute_missing :: "string \<Rightarrow> string \<Rightarrow> error" where
  "attribute_missing type_name attribute =
     Error AttributeError (Msg ''%r object has no attribute %r'' [Repr type_name, Repr attribute])
       None None"

definition index_out_of_range :: error where
  "index_out_of_range = Error IndexError (Msg ''list index out of range'' []) None None"

section \<open>The collaborators of the compiler\<close>

text \<open>
  The modules \<open>fields\<close>, \<open>checks\<close>, \<open>data\<close>, \<open>errors\<close> and \<open>ranges\<close> and Python's
  \<open>tokenize\<close> and \<open>repr\<close> are not among the sources: they are parameters of the
  model, gathered in one record. \<open>'df\<close> is the type of data formats, \<open>'ff\<close> of field
  formats, \<open>'ck\<close> of checks. Each function that can raise returns \<open>error + result\<close>.
  \<^item> \<open>validated_field_name\<close>: \<open>fields.validated_field_name(name, location)\<close>;
  \<^item> \<open>new_field_format\<close>: \<open>field_class.__new__\<close> followed by \<open>__init__(name,
    is_allowed_to_be_empty, length, rule, data_format)\<close>;
  \<^item> \<open>set_example\<close>: the assignment \<open>field_format.example = example\<close>;
  \<^item> \<open>length_items\<close>: \<open>field_format.length.items\<close>, a list of \<open>(lower, upper)\<close>
    pairs, each bound an integer or \<open>None\<close>, or \<open>None\<close> for the list itself;
    \<open>length_text\<close>: \<open>str(field_format.length)\<close>;
  \<^item> \<open>DataFormat\<close>: the constructor \<open>data.DataFormat(format, location)\<close>;
    \<open>set_property\<close> and \<open>format_of\<close>: its method and its attribute \<open>format\<close>;
  \<^item> \<open>new_check\<close>: \<open>check_class.__new__\<close> followed by \<open>__init__(description, rule,
    field_names, location)\<close>; \<open>check_location\<close>: the attribute \<open>location\<close> of a check;
  \<^item> \<open>generate_tokens\<close>: \<open>tokenize.generate_tokens\<close> on the text, as the list of
    what each \<open>next\<close> gives (a token type with its text, or the error raised);
  \<^item> \<open>py_repr\<close>: \<open>"%r" % s\<close> for a string \<open>s\<close>;
  \<^item> \<open>create_caller_input_location\<close>: \<open>errors.create_caller_input_location()\<close>.
\<close>

datatype sourcefile = SourcePath string | NoSourceFile | NotInspectable

record pyclass =
  cls_name :: string
  cls_module :: string
  cls_sourcefile :: sourcefile

type_synonym interval = "int option \<times> int option"

record ('df, 'ff, 'ck) ext =
  validated_field_name :: "string \<Rightarrow> input_location \<Rightarrow> error + string"
  new_field_format ::
    "pyclass \<Rightarrow> string \<Rightarrow> bool \<Rightarrow> string option \<Rightarrow> string \<Rightarrow> 'df \<Rightarrow> error + 'ff"
  set_example :: "'ff \<Rightarrow> string \<Rightarrow> error + 'ff"
  length_items :: "'ff \<Rightarrow> interval list option"
  length_text :: "'ff \<Rightarrow> string"
  DataFormat :: "string \<Rightarrow> input_location \<Rightarrow> error + 'df"
  set_property :: "'df \<Rightarrow> string \<Rightarrow> string \<Rightarrow> error + 'df"
  format_of :: "'df \<Rightarrow> string"
  new_check ::
    "pyclass \<Rightarrow> string \<Rightarrow> string \<Rightarrow> string list \<Rightarrow> input_location option \<Rightarrow> error + 'ck"
  check_location :: "'ck \<Rightarrow> input_location option"
  generate_tokens :: "string \<Rightarrow> (error + nat \<times> string) list"
  py_repr :: "string \<Rightarrow> string"
  create_caller_input_location :: input_location

text \<open>
  Modelled from the spec: the constant \<open>data.FORMAT_FIXED\<close> is not among the sources;
  the spec names the format \<open>fixed\<close> and writes it \<open>"fixed"\<close> in a data-format row.
\<close>

definition FORMAT_FIXED :: string where
  "FORMAT_FIXED = ''fixed''"

section \<open>\<open>_tools\<close>\<close>

text \<open>The token types \<open>token.ENDMARKER\<close> and \<open>token.NAME\<close>, and \<open>tokenize.ISEOF\<close>.\<close>

definition ENDMARKER :: nat where
  "ENDMARKER = 0"

definition NAME :: nat where
  "NAME = 1"

definition ISEOF :: "nat \<Rightarrow> bool" where
  "ISEOF x = (x = ENDMARKER)"

definition stop_iteration :: error where
  "stop_iteration = Error StopIteration (Msg [] []) None None"

definition validatedPythonName :: "('df, 'ff, 'ck) ext \<Rightarrow> string \<Rightarrow> string \<Rightarrow> error + string" where
  "validatedPythonName e name val =
     (if name = [] then Inl (assertion_failed [])
      else
        (case generate_tokens e (strip val) of
           [] \<Rightarrow> Inl stop_iteration
         | Inl err # _ \<Rightarrow> Inl err
         | Inr (nextType, result) # toky \<Rightarrow>
             if ISEOF nextType then
               Inl (Error NameError (Msg ''%s must not be empty but was: %r'' [Str name, Repr val])
                      None None)
             else if nextType \<noteq> NAME then
               Inl (Error NameError
                      (Msg ''%s must contain only ASCII letters, digits and underscore (_) but is: %r''
                         [Str name, Repr val])
                      None None)
             else
               (case toky of
                  [] \<Rightarrow> Inl stop_iteration
                | Inl err # _ \<Rightarrow> Inl err
                | Inr (secondTokenType, secondText) # _ \<Rightarrow>
                    if \<not> ISEOF secondTokenType then
                      Inl (Error NameError
                             (Msg ''%s must be a single word, but after %r there also is %r''
                                [Str name, Repr result, Repr secondText])
                             None None)
                    else Inr result)))"

text \<open>
  \<open>humanReadableList\<close>: the loop over \<open>range(itemCount)\<close> is a left fold over the
  indices, \<open>result\<close> the accumulator.
\<close>

definition humanReadableList :: "(string \<Rightarrow> string) \<Rightarrow> string list \<Rightarrow> string" where
  "humanReadableList repr items =
     (let itemCount = length items in
      if itemCount = 0 then []
      else if itemCount = 1 then repr (items ! 0)
      else
        foldl (\<lambda>result itemIndex.
                 (if itemIndex = itemCount - 1 then result @ '' or ''
                  else if itemIndex > 0 then result @ '', ''
                  else result) @ repr (items ! itemIndex))
          [] [0..<itemCount])"

section \<open>The class \<open>Cid\<close>\<close>

text \<open>
  The attributes of a \<open>Cid\<close> object that compilation reads or writes. A dictionary is
  an association list in insertion order: \<open>map_of\<close> looks a key up, \<open>AList.update\<close>
  stores a value (in place for a key that is there, at the end for a new one), the
  length is \<open>len\<close> and the keys in order are \<open>keys()\<close>. The run-time counters and the
  validation listeners play no part in compilation and are left out.
\<close>

record ('df, 'ff, 'ck) cid =
  data_format :: "'df option"
  field_names :: "string list"
  field_formats :: "'ff list"
  field_name_to_format_map :: "(string \<times> 'ff) list"
  field_name_to_index_map :: "(string \<times> nat) list"
  check_names :: "string list"
  check_name_to_check_map :: "(string \<times> 'ck) list"
  location :: "input_location option"
  check_name_to_class_map :: "(string \<times> pyclass) list"
  field_format_name_to_class_map :: "(string \<times> pyclass) list"

subsection \<open>The registries\<close>

definition dq :: string where
  "dq = [CHR 0x22]"

text \<open>
  \<open>_class_info\<close>: \<open>inspect.getsourcefile\<close> gives a path, gives \<open>None\<close> (and the
  concatenation raises a \<open>TypeError\<close>) or raises the \<open>TypeError\<close> that the source
  turns into \<open>"(internal)"\<close>.
\<close>

definition class_info :: "pyclass \<Rightarrow> error + string" where
  "class_info some_class =
     (let qualified_name = cls_module some_class @ ''.'' @ cls_name some_class in
      case cls_sourcefile some_class of
        SourcePath source_path \<Rightarrow>
          Inr (qualified_name @ '' (see: '' @ dq @ source_path @ dq @ '')'')
      | NotInspectable \<Rightarrow>
          Inr (qualified_name @ '' (see: '' @ dq @ ''(internal)'' @ dq @ '')'')
      | NoSourceFile \<Rightarrow>
          Inl (Error TypeError (Msg ''can only concatenate str (not %r) to str'' [Str ''NoneType''])
                 None None))"

text \<open>
  \<open>_create_name_to_class_map\<close>: the loop over the set of subclasses, in the order the
  set gives them; the first argument is \<open>result\<close>.
\<close>

fun create_name_to_class_map ::
  "(string \<times> pyclass) list \<Rightarrow> pyclass list \<Rightarrow> error + (string \<times> pyclass) list" where
  "create_name_to_class_map result [] = Inr result"
| "create_name_to_class_map result (class_to_process # rest) =
     (let plain_class_name = final_component (cls_name class_to_process) in
      case map_of result plain_class_name of
        None \<Rightarrow>
          create_name_to_class_map (AList.update plain_class_name class_to_process result) rest
      | Some clashing_class \<Rightarrow>
          (case class_info clashing_class of
             Inl err \<Rightarrow> Inl err
           | Inr clashing_class_info \<Rightarrow>
               (case class_info class_to_process of
                  Inl err \<Rightarrow> Inl err
                | Inr class_to_process_info \<Rightarrow>
                    if clashing_class_info = class_to_process_info then
                      create_name_to_class_map result rest
                    else
                      Inl (Error CutplaceError
                             (Msg ''clashing plugin class names must be resolved: %s and %s''
                                [Str clashing_class_info, Str class_to_process_info])
                             None None))))"

text \<open>
  \<open>__init__\<close>: the two arguments are the subclasses of \<open>checks.AbstractCheck\<close> and of
  \<open>fields.AbstractFieldFormat\<close>.
\<close>

definition Cid :: "pyclass list \<Rightarrow> pyclass list \<Rightarrow> error + ('df, 'ff, 'ck) cid" where
  "Cid check_classes field_format_classes =
     (case create_name_to_class_map [] check_classes of
        Inl err \<Rightarrow> Inl err
      | Inr check_map \<Rightarrow>
          (case create_name_to_class_map [] field_format_classes of
             Inl err \<Rightarrow> Inl err
           | Inr field_format_map \<Rightarrow>
               Inr \<lparr>data_format = None, field_names = [], field_formats = [],
                    field_name_to_format_map = [], field_name_to_index_map = [],
                    check_names = [], check_name_to_check_map = [], location = None,
                    check_name_to_class_map = check_map,
                    field_format_name_to_class_map = field_format_map\<rparr>))"

text \<open>
  \<open>_create_class\<close>. \<open>unknown_class\<close> is the error it raises for a name that is not
  in the dictionary: no location, the qualifier as given, the class name looked up and
  the sorted keys joined by \<open>humanReadableList\<close>. The assertion on
  \<open>error_to_raise_on_unknown_class\<close> cannot fail here: the argument is an
  \<open>error_kind\<close>.
\<close>

definition unknown_class ::
  "(string \<Rightarrow> string) \<Rightarrow> (string \<times> pyclass) list \<Rightarrow> string \<Rightarrow> string \<Rightarrow> string \<Rightarrow> error_kind
     \<Rightarrow> error" where
  "unknown_class repr name_to_class_map class_qualifier class_name type_name
       error_to_raise_on_unknown_class =
     Error error_to_raise_on_unknown_class
       (Msg ''cannot find class for %s %s: related class is %s but must be one of: %s''
          [Str type_name, Str class_qualifier, Str class_name,
           Str (humanReadableList repr (sort (map fst name_to_class_map)))])
       None None"

definition create_class ::
  "(string \<Rightarrow> string) \<Rightarrow> (string \<times> pyclass) list \<Rightarrow> string \<Rightarrow> string \<Rightarrow> string \<Rightarrow> error_kind
     \<Rightarrow> error + pyclass" where
  "create_class repr name_to_class_map class_qualifier class_name_appendix type_name
       error_to_raise_on_unknown_class =
     (if name_to_class_map = [] then Inl (assertion_failed [])
      else if class_qualifier = [] then Inl (assertion_failed [])
      else if class_name_appendix = [] then Inl (assertion_failed [])
      else if type_name = [] then Inl (assertion_failed [])
      else
        (let class_name = final_component class_qualifier @ class_name_appendix in
         case map_of name_to_class_map class_name of
           None \<Rightarrow>
             Inl (unknown_class repr name_to_class_map class_qualifier class_name type_name
                    error_to_raise_on_unknown_class)
         | Some result \<Rightarrow> Inr result))"

definition create_field_format_class ::
  "('df, 'ff, 'ck) ext \<Rightarrow> ('df, 'ff, 'ck) cid \<Rightarrow> string \<Rightarrow> error + pyclass" where
  "create_field_format_class e c field_type =
     (if field_type = [] then Inl (assertion_failed [])
      else create_class (py_repr e) (field_format_name_to_class_map c) field_type
             ''FieldFormat'' ''field'' FieldSyntaxError)"

definition create_check_class ::
  "('df, 'ff, 'ck) ext \<Rightarrow> ('df, 'ff, 'ck) cid \<Rightarrow> string \<Rightarrow> error + pyclass" where
  "create_check_class e c check_type =
     (if check_type = [] then Inl (assertion_failed [])
      else create_class (py_repr e) (check_name_to_class_map c) check_type
             ''Check'' ''check'' CheckSyntaxError)"

subsection \<open>\<open>add_field_format\<close>\<close>

text \<open>
  The values \<open>add_field_format\<close> reads from the cells of a field row: \<open>field_name\<close>,
  \<open>field_example\<close>, \<open>field_is_allowed_to_be_empty\<close>, \<open>field_length\<close>, \<open>field_type\<close>
  and \<open>field_rule\<close>; \<open>None\<close> is Python's \<open>None\<close>.
\<close>

record field_cells =
  name_cell :: string
  example_cell :: "string option"
  empty_cell :: bool
  length_cell :: "string option"
  type_cell :: "string option"
  rule_cell :: string

text \<open>
  The loop over \<open>field_type_parts\<close>; the first argument is \<open>field_type\<close> as built so
  far.
\<close>

fun join_field_type_parts ::
  "('df, 'ff, 'ck) ext \<Rightarrow> string \<Rightarrow> string list \<Rightarrow> error + string" where
  "join_field_type_parts e field_type [] = Inr field_type"
| "join_field_type_parts e field_type (part # parts) =
     (case validatedPythonName e ''field type part'' part of
        Inl err \<Rightarrow> Inl err
      | Inr validated \<Rightarrow>
          join_field_type_parts e
            ((if field_type \<noteq> [] then field_type @ ''.'' else field_type) @ validated) parts)"

text \<open>
  The \<open>try\<close> block of the field type: a \<open>NameError\<close> becomes a \<open>FieldSyntaxError\<close> with
  the same text at the current location, any other error passes.
\<close>

definition validated_field_type ::
  "('df, 'ff, 'ck) ext \<Rightarrow> input_location \<Rightarrow> string \<Rightarrow> error + string" where
  "validated_field_type e l field_type_item =
     (case join_field_type_parts e [] (split_on CHR ''.'' field_type_item) of
        Inl err \<Rightarrow>
          if err_kind err = NameError then
            Inl (Error FieldSyntaxError (err_message err) (Some l) None)
          else Inl err
      | Inr field_type \<Rightarrow>
          if field_type = [] then
            Inl (assertion_failed ''empty field type must be detected by validatedPythonName()'')
          else Inr field_type)"

text \<open>
  The cells of a field row, from \<open>validated_field_name\<close> to \<open>field_rule\<close>. The result
  comes with the location as the cells left it, also when a cell is refused.
\<close>

definition read_field_cells ::
  "('df, 'ff, 'ck) ext \<Rightarrow> input_location \<Rightarrow> string list
     \<Rightarrow> (error + field_cells) \<times> input_location" where
  "read_field_cells e l items =
     (let item_count = length items in
      case validated_field_name e (items ! 0) l of
        Inl err \<Rightarrow> (Inl err, l)
      | Inr name \<Rightarrow>
          let l1 = (if item_count \<ge> 2 then advance_cell l else l);
              example = (if item_count \<ge> 2 then Some (items ! 1) else None);
              l2 = (if item_count \<ge> 3 then advance_cell l1 else l1);
              empty_text = (if item_count \<ge> 3 then lower (strip (items ! 2)) else [])
          in
          if empty_text \<noteq> ''x'' \<and> empty_text \<noteq> [] then
            (Inl (Error FieldSyntaxError
                    (Msg ''mark for empty field must be %r or empty but is %r''
                       [Repr ''x'', Repr empty_text])
                    (Some l2) None), l2)
          else
            let l3 = (if item_count \<ge> 4 then advance_cell l2 else l2);
                len = (if item_count \<ge> 4 then Some (strip (items ! 3)) else None);
                l4 = (if item_count \<ge> 5 then advance_cell l3 else l3)
            in
            (case (if item_count \<ge> 5 \<and> strip (items ! 4) \<noteq> []
                   then map_sum id Some (validated_field_type e l4 (strip (items ! 4)))
                   else Inr None) of
               Inl err \<Rightarrow> (Inl err, l4)
             | Inr type \<Rightarrow>
                 let l5 = (if item_count \<ge> 6 then advance_cell l4 else l4);
                     rule = (if item_count \<ge> 6 then strip (items ! 5) else [])
                 in
                 (Inr \<lparr>name_cell = name, example_cell = example,
                       empty_cell = (empty_text = ''x''),
                       length_cell = len, type_cell = type, rule_cell = rule\<rparr>, l5)))"

text \<open>
  The length of a field under the fixed data format. \<open>lower < 1\<close> on a bound that is
  \<open>None\<close> raises a \<open>TypeError\<close>.
\<close>

definition validated_fixed_length ::
  "('df, 'ff, 'ck) ext \<Rightarrow> input_location \<Rightarrow> string \<Rightarrow> 'ff \<Rightarrow> error option" where
  "validated_fixed_length e l name field_format =
     (case length_items e field_format of
        None \<Rightarrow>
          Some (Error FieldSyntaxError
                  (Msg ''length of field %r must be specified with fixed data format'' [Repr name])
                  (Some l) None)
      | Some [] \<Rightarrow>
          Some (Error FieldSyntaxError
                  (Msg ''length of field %r must be specified with fixed data format'' [Repr name])
                  (Some l) None)
      | Some [(lower_limit, upper_limit)] \<Rightarrow>
          if lower_limit = upper_limit then
            (case lower_limit of
               None \<Rightarrow>
                 Some (Error TypeError
                         (Msg ''%r not supported between instances of %r and %r''
                            [Repr ''<'', Repr ''NoneType'', Repr ''int''])
                         None None)
             | Some n \<Rightarrow>
                 if n < 1 then
                   Some (Error FieldSyntaxError
                           (Msg ''length of field %r for fixed data format must be at least 1 but is : %s''
                              [Repr name, Str (length_text e field_format)])
                           (Some l) None)
                 else None)
          else
            Some (Error FieldSyntaxError
                    (Msg ''length of field %r for fixed data format must be a single value but is: %s''
                       [Repr name, Str (length_text e field_format)])
                    (Some l) None)
      | Some (_ # _ # _) \<Rightarrow>
          Some (Error FieldSyntaxError
                  (Msg ''length of field %r for fixed data format must be a single value but is: %s''
                     [Repr name, Str (length_text e field_format)])
                  (Some l) None))"

text \<open>
  The class for the field type (\<open>"Text"\<close> when the row names none) and the field
  format it constructs.
\<close>

definition construct_field_format ::
  "('df, 'ff, 'ck) ext \<Rightarrow> ('df, 'ff, 'ck) cid \<Rightarrow> 'df \<Rightarrow> field_cells \<Rightarrow> error + 'ff" where
  "construct_field_format e c the_data_format cells =
     (let type = (case type_cell cells of None \<Rightarrow> ''Text''
                  | Some t \<Rightarrow> if t = [] then ''Text'' else t)
      in
      case create_field_format_class e c type of
        Inl err \<Rightarrow> Inl err
      | Inr field_cls \<Rightarrow>
          new_field_format e field_cls (name_cell cells) (empty_cell cells) (length_cell cells)
            (rule_cell cells) the_data_format)"

text \<open>
  The example, when there is one: a \<open>FieldValueError\<close> of the field format becomes a
  \<open>CidSyntaxError\<close> at cell 2, any other error passes and leaves the location.
\<close>

definition validated_example ::
  "('df, 'ff, 'ck) ext \<Rightarrow> input_location \<Rightarrow> field_cells \<Rightarrow> 'ff
     \<Rightarrow> (error + 'ff) \<times> input_location" where
  "validated_example e l cells field_format =
     (case example_cell cells of
        None \<Rightarrow> (Inr field_format, l)
      | Some example \<Rightarrow>
          if example = [] then (Inr field_format, l)
          else
            (case set_example e field_format example of
               Inl err \<Rightarrow>
                 if err_kind err = FieldValueError then
                   (Inl (Error CidSyntaxError
                           (Msg ''cannot validate example for field %r: %s''
                              [Repr (name_cell cells), Exc err])
                           (Some (set_cell 2 l)) None), set_cell 2 l)
                 else (Inl err, l)
             | Inr with_example \<Rightarrow> (Inr with_example, l)))"

text \<open>
  From the class of the field type to the validated length: the field format to add,
  or the error, with the location as left.
\<close>

definition new_validated_field_format ::
  "('df, 'ff, 'ck) ext \<Rightarrow> ('df, 'ff, 'ck) cid \<Rightarrow> 'df \<Rightarrow> input_location \<Rightarrow> field_cells
     \<Rightarrow> (error + 'ff) \<times> input_location" where
  "new_validated_field_format e c the_data_format l cells =
     (case construct_field_format e c the_data_format cells of
        Inl err \<Rightarrow> (Inl err, l)
      | Inr constructed \<Rightarrow>
          if map_of (field_name_to_format_map c) (name_cell cells) \<noteq> None then
            (Inl (Error FieldSyntaxError
                    (Msg ''field name must be used for only one field: %s''
                       [Str (name_cell cells)])
                    (Some (set_cell 1 l)) None), set_cell 1 l)
          else
            (case validated_example e l cells constructed of
               (Inl err, l') \<Rightarrow> (Inl err, l')
             | (Inr field_format, l') \<Rightarrow>
                 if format_of e the_data_format = FORMAT_FIXED then
                   (case validated_fixed_length e (set_cell 4 l') (name_cell cells)
                           field_format of
                      Some err \<Rightarrow> (Inl err, set_cell 4 l')
                    | None \<Rightarrow> (Inr field_format, set_cell 4 l'))
                 else (Inr field_format, l')))"

text \<open>
  \<open>add_field_format\<close>. The result is the error raised, if any, and the object as the
  call leaves it. The three assertions on the lengths are one test; the assertion on
  \<open>field_name\<close> comes after the field is stored, as in the source.
\<close>

definition add_field_format ::
  "('df, 'ff, 'ck) ext \<Rightarrow> ('df, 'ff, 'ck) cid \<Rightarrow> string list
     \<Rightarrow> error option \<times> ('df, 'ff, 'ck) cid" where
  "add_field_format e c items =
     (case location c of
        None \<Rightarrow> (Some (assertion_failed []), c)
      | Some l \<Rightarrow>
          (case data_format c of
             None \<Rightarrow>
               (Some (Error CidSyntaxError
                        (Msg ''data format must be specified before first field'' [])
                        (Some l) None), c)
           | Some the_data_format \<Rightarrow>
               let field_count = length (field_names c) in
               if length (field_formats c) \<noteq> field_count
                  \<or> length (field_name_to_format_map c) \<noteq> field_count
                  \<or> length (field_name_to_index_map c) \<noteq> field_count
               then (Some (assertion_failed []), c)
               else if length items \<ge> 1 then
                 (case read_field_cells e l items of
                    (Inl err, l') \<Rightarrow> (Some err, c\<lparr>location := Some l'\<rparr>)
                  | (Inr cells, l') \<Rightarrow>
                      (case new_validated_field_format e c the_data_format l' cells of
                         (Inl err, l'') \<Rightarrow> (Some err, c\<lparr>location := Some l''\<rparr>)
                       | (Inr field_format, l'') \<Rightarrow>
                           (if name_cell cells = [] then Some (assertion_failed []) else None,
                            c\<lparr>location := Some (set_cell 1 l''),
                              field_name_to_format_map :=
                                AList.update (name_cell cells) field_format
                                  (field_name_to_format_map c),
                              field_name_to_index_map :=
                                AList.update (name_cell cells) (length (field_names c))
                                  (field_name_to_index_map c),
                              field_names := field_names c @ [name_cell cells],
                              field_formats := field_formats c @ [field_format]\<rparr>)))
               else
                 (Some (Error FieldSyntaxError
                          (Msg ''field format row (marked with %r) must at least contain a field name''
                             [Repr ''f''])
                          (Some l) None), c)))"

subsection \<open>\<open>add_check\<close>\<close>

text \<open>
  The loop \<open>for i in range(1, len(items))\<close> of \<open>add_check\<close>, a left fold over the
  indices: the state is \<open>(check_type, rule_index)\<close>, at the start \<open>(None, 2)\<close>, and
  \<open>scan_step\<close> is the body.
\<close>

definition scan_step ::
  "(string \<times> pyclass) list \<Rightarrow> string list \<Rightarrow> string option \<times> nat \<Rightarrow> nat
     \<Rightarrow> string option \<times> nat" where
  "scan_step name_to_class_map items state i =
     (if map_of name_to_class_map (items ! i @ ''Check'') \<noteq> None
      then (Some (items ! i), i + 1)
      else state)"

definition scan_check_type ::
  "(string \<times> pyclass) list \<Rightarrow> string list \<Rightarrow> string option \<times> nat" where
  "scan_check_type name_to_class_map items =
     foldl (scan_step name_to_class_map items) (None, 2) [1..<length items]"

text \<open>\<open>items[1:-2]\<close> for a list of at least two items.\<close>

definition slice_1_minus_2 :: "string list \<Rightarrow> string list" where
  "slice_1_minus_2 items = drop 1 (take (length items - 2) items)"

definition unknown_check_type ::
  "('df, 'ff, 'ck) cid \<Rightarrow> string list \<Rightarrow> error" where
  "unknown_check_type c items =
     Error CheckSyntaxError
       (Msg ''check type should be one of %s but is %s''
          [Keys (map fst (check_name_to_class_map c)), Seq (slice_1_minus_2 items)])
       (location c) None"

text \<open>
  The end of \<open>add_check\<close>, from the construction of the check on: the check of the
  class for the description and the rule, the test that the description is new, and
  the check stored. \<open>self._location.set_cell(1)\<close> needs a location.
\<close>

definition store_check ::
  "('df, 'ff, 'ck) ext \<Rightarrow> ('df, 'ff, 'ck) cid \<Rightarrow> string \<Rightarrow> pyclass \<Rightarrow> string
     \<Rightarrow> error option \<times> ('df, 'ff, 'ck) cid" where
  "store_check e c check_description check_cls check_rule =
     (case new_check e check_cls check_description check_rule (field_names c) (location c) of
        Inl err \<Rightarrow> (Some err, c)
      | Inr check \<Rightarrow>
          (case location c of
             None \<Rightarrow> (Some (attribute_missing ''NoneType'' ''set_cell''), c)
           | Some l \<Rightarrow>
               (case map_of (check_name_to_check_map c) check_description of
                  Some existing_check \<Rightarrow>
                    (Some (Error CheckSyntaxError
                             (Msg ''check description must be used only once: %r''
                                [Repr check_description])
                             (Some (set_cell 1 l))
                             (Some (''initial declaration'', check_location e existing_check))),
                     c\<lparr>location := Some (set_cell 1 l)\<rparr>)
                | None \<Rightarrow>
                    (let c' = c\<lparr>location := Some (set_cell 1 l),
                               check_name_to_check_map :=
                                 AList.update check_description check (check_name_to_check_map c),
                               check_names := check_names c @ [check_description]\<rparr>
                     in
                     (if length (check_names c') \<noteq> length (check_name_to_check_map c')
                      then Some (assertion_failed []) else None, c')))))"

text \<open>
  \<open>add_check\<close>. \<open>not check_type\<close> holds for \<open>None\<close> and for the empty string;
  \<open>items[rule_index]\<close> raises an \<open>IndexError\<close> when \<open>rule_index\<close> is the length of
  the row.
\<close>

definition add_check ::
  "('df, 'ff, 'ck) ext \<Rightarrow> ('df, 'ff, 'ck) cid \<Rightarrow> string list
     \<Rightarrow> error option \<times> ('df, 'ff, 'ck) cid" where
  "add_check e c items =
     (let item_count = length items in
      if item_count < 2 then
        (Some (Error CheckSyntaxError
                 (Msg ''check row (marked with %r) must contain at least 2 columns'' [Repr ''c''])
                 (location c) None), c)
      else
        let check_description = items ! 0 in
        case scan_check_type (check_name_to_class_map c) items of
          (None, rule_index) \<Rightarrow> (Some (unknown_check_type c items), c)
        | (Some check_type, rule_index) \<Rightarrow>
            if check_type = [] then (Some (unknown_check_type c items), c)
            else if item_count \<ge> 3 \<and> \<not> rule_index < length items then
              (Some index_out_of_range, c)
            else
              let check_rule = (if item_count \<ge> 3 then items ! rule_index else []) in
              (case create_check_class e c check_type of
                 Inl err \<Rightarrow> (Some err, c)
               | Inr check_cls \<Rightarrow> store_check e c check_description check_cls check_rule))"

subsection \<open>\<open>read\<close>\<close>

text \<open>\<open>(row[1:] + [''] * 6)[:6]\<close>.\<close>

definition row_data_of :: "string list \<Rightarrow> string list" where
  "row_data_of row = take 6 (tl row @ replicate 6 [])"

text \<open>The body of the loop of \<open>read\<close> for a row that is not empty.\<close>

definition read_row ::
  "('df, 'ff, 'ck) ext \<Rightarrow> ('df, 'ff, 'ck) cid \<Rightarrow> string list
     \<Rightarrow> error option \<times> ('df, 'ff, 'ck) cid" where
  "read_row e c row =
     (let row_type = lower (row ! 0);
          row_data = row_data_of row
      in
      if row_type = ''d'' then
        (let name = row_data ! 0; val = row_data ! 1 in
         case location c of
           None \<Rightarrow> (Some (attribute_missing ''NoneType'' ''advance_cell''), c)
         | Some l \<Rightarrow>
             if name = [] then
               (Some (Error DataFormatSyntaxError
                        (Msg ''name of data format property must be specified'' [])
                        (Some (advance_cell l)) None),
                c\<lparr>location := Some (advance_cell l)\<rparr>)
             else
               (let l' = advance_cell (advance_cell l) in
                case data_format c of
                  None \<Rightarrow>
                    (case DataFormat e (lower val) l' of
                       Inl err \<Rightarrow> (Some err, c\<lparr>location := Some l'\<rparr>)
                     | Inr new_data_format \<Rightarrow>
                         (None, c\<lparr>location := Some l', data_format := Some new_data_format\<rparr>))
                | Some the_data_format \<Rightarrow>
                    (case set_property e the_data_format (lower name) (lower val) of
                       Inl err \<Rightarrow> (Some err, c\<lparr>location := Some l'\<rparr>)
                     | Inr changed_data_format \<Rightarrow>
                         (None, c\<lparr>location := Some l',
                                  data_format := Some changed_data_format\<rparr>))))
      else if row_type = ''f'' then add_field_format e c row_data
      else if row_type = ''c'' then add_check e c row_data
      else if row_type \<noteq> [] then
        (Some (Error DataFormatSyntaxError
                 (Msg (''CID row type is '' @ dq @ ''%s'' @ dq
                         @ '' but must be empty or one of: C, D, or F'')
                    [Str row_type])
                 (location c) None), c)
      else (None, c))"

text \<open>The loop of \<open>read\<close> over the rows: an error ends it, \<open>advance_line\<close> ends each row.\<close>

fun read_rows ::
  "('df, 'ff, 'ck) ext \<Rightarrow> ('df, 'ff, 'ck) cid \<Rightarrow> string list list
     \<Rightarrow> error option \<times> ('df, 'ff, 'ck) cid" where
  "read_rows e c [] = (None, c)"
| "read_rows e c (row # rows) =
     (case (if row \<noteq> [] then read_row e c row else (None, c)) of
        (Some err, c') \<Rightarrow> (Some err, c')
      | (None, c') \<Rightarrow>
          (case location c' of
             None \<Rightarrow> (Some (attribute_missing ''NoneType'' ''advance_line''), c')
           | Some l \<Rightarrow> read_rows e (c'\<lparr>location := Some (advance_line l)\<rparr>) rows))"

definition read ::
  "('df, 'ff, 'ck) ext \<Rightarrow> ('df, 'ff, 'ck) cid \<Rightarrow> string \<Rightarrow> string list list
     \<Rightarrow> error option \<times> ('df, 'ff, 'ck) cid" where
  "read e c source_path rows =
     read_rows e (c\<lparr>location := Some (InputLocation source_path True)\<rparr>) rows"

subsection \<open>The accessors\<close>

definition field_index ::
  "('df, 'ff, 'ck) ext \<Rightarrow> ('df, 'ff, 'ck) cid \<Rightarrow> string \<Rightarrow> error + nat" where
  "field_index e c name =
     (case map_of (field_name_to_index_map c) name of
        Some result \<Rightarrow> Inr result
      | None \<Rightarrow>
          Inl (Error FieldLookupError
                 (Msg ''unknown field name %r must be replaced by one of: %s''
                    [Repr name, Str (humanReadableList (py_repr e) (sort (field_names c)))])
                 None None))"

text \<open>
  The methods of the class \<open>Cid\<close> that take a field name and give an index, by name:
  \<open>field_index\<close> is the only one. The class has no base class and defines no
  \<open>__getattr__\<close>, so any other name is an \<open>AttributeError\<close>.
\<close>

definition Cid_index_method ::
  "string \<Rightarrow> (('df, 'ff, 'ck) ext \<Rightarrow> ('df, 'ff, 'ck) cid \<Rightarrow> string \<Rightarrow> error + nat) option" where
  "Cid_index_method attribute = (if attribute = ''field_index'' then Some field_index else None)"

text \<open>
  \<open>field_value_for\<close>: the value, or the error, and the object as the call leaves it.
  The source calls \<open>self.get_field_name_index(field_name)\<close>.
\<close>

definition field_value_for ::
  "('df, 'ff, 'ck) ext \<Rightarrow> ('df, 'ff, 'ck) cid \<Rightarrow> string \<Rightarrow> string list
     \<Rightarrow> (error + string) \<times> ('df, 'ff, 'ck) cid" where
  "field_value_for e c name row =
     (let actual_row_count = length row;
          expected_row_count = length (field_names c)
      in
      if actual_row_count \<noteq> expected_row_count then
        (Inl (Error DataFormatValueError
                (Msg ''row must have %d items but has %d: %s''
                   [Num (int expected_row_count), Num (int actual_row_count), Seq row])
                (Some (create_caller_input_location e)) None),
         c\<lparr>location := Some (create_caller_input_location e)\<rparr>)
      else
        (case Cid_index_method ''get_field_name_index'' of
           None \<Rightarrow> (Inl (attribute_missing ''Cid'' ''get_field_name_index''), c)
         | Some get_field_name_index \<Rightarrow>
             (case get_field_name_index e c name of
                Inl err \<Rightarrow> (Inl err, c)
              | Inr index \<Rightarrow>
                  if \<not> index < length row then (Inl (assertion_failed []), c)
                  else (Inr (row ! index), c))))"

section \<open>Notions for the statements\<close>

text \<open>
  The loop of \<open>read\<close> after the body has run for a row: what the body raised ends the
  loop, otherwise \<open>advance_line\<close> and the rows that remain.
\<close>

definition continue_read ::
  "('df, 'ff, 'ck) ext \<Rightarrow> error option \<times> ('df, 'ff, 'ck) cid \<Rightarrow> string list list
     \<Rightarrow> error option \<times> ('df, 'ff, 'ck) cid" where
  "continue_read e outcome rows =
     (case outcome of
        (Some err, c') \<Rightarrow> (Some err, c')
      | (None, c') \<Rightarrow>
          (case location c' of
             None \<Rightarrow> (Some (attribute_missing ''NoneType'' ''advance_line''), c')
           | Some l \<Rightarrow> read_rows e (c'\<lparr>location := Some (advance_line l)\<rparr>) rows))"

text \<open>
  What belongs to the schema of a \<open>Cid\<close> object: its fields (the names, the formats
  and the two dictionaries) and its checks.
\<close>

definition fields_of ::
  "('df, 'ff, 'ck) cid \<Rightarrow> string list \<times> 'ff list \<times> (string \<times> 'ff) list \<times> (string \<times> nat) list" where
  "fields_of c =
     (field_names c, field_formats c, field_name_to_format_map c, field_name_to_index_map c)"

definition checks_of :: "('df, 'ff, 'ck) cid \<Rightarrow> string list \<times> (string \<times> 'ck) list" where
  "checks_of c = (check_names c, check_name_to_check_map c)"

text \<open>
  The object after lines 293 to 297 of \<open>add_field_format\<close> have stored a field, and
  after lines 341 and 342 of \<open>add_check\<close> have stored a check.
\<close>

definition field_added ::
  "('df, 'ff, 'ck) cid \<Rightarrow> input_location \<Rightarrow> string \<Rightarrow> 'ff \<Rightarrow> ('df, 'ff, 'ck) cid" where
  "field_added c l name field_format =
     c\<lparr>location := Some l,
       field_name_to_format_map := AList.update name field_format (field_name_to_format_map c),
       field_name_to_index_map :=
         AList.update name (length (field_names c)) (field_name_to_index_map c),
       field_names := field_names c @ [name],
       field_formats := field_formats c @ [field_format]\<rparr>"

definition check_added ::
  "('df, 'ff, 'ck) cid \<Rightarrow> input_location \<Rightarrow> string \<Rightarrow> 'ck \<Rightarrow> ('df, 'ff, 'ck) cid" where
  "check_added c l description check =
     c\<lparr>location := Some l,
       check_name_to_check_map := AList.update description check (check_name_to_check_map c),
       check_names := check_names c @ [description]\<rparr>"

text \<open>
  The invariant of the fields: the keys of the format dictionary are the field names in
  order, its values the formats in order, the index dictionary maps the names in order
  to \<open>0, 1, \<dots>\<close>, and no name occurs twice. The one of the checks: the keys of the check
  dictionary are the descriptions in order, and none occurs twice. The one of the
  registries: a key is a plain class name, with no dot.
\<close>

definition fields_consistent :: "('df, 'ff, 'ck) cid \<Rightarrow> bool" where
  "fields_consistent c \<longleftrightarrow>
     map fst (field_name_to_format_map c) = field_names c
   \<and> map snd (field_name_to_format_map c) = field_formats c
   \<and> field_name_to_index_map c = zip (field_names c) [0..<length (field_names c)]
   \<and> distinct (field_names c)"

definition checks_consistent :: "('df, 'ff, 'ck) cid \<Rightarrow> bool" where
  "checks_consistent c \<longleftrightarrow>
     map fst (check_name_to_check_map c) = check_names c \<and> distinct (check_names c)"

definition plain_keys :: "(string \<times> pyclass) list \<Rightarrow> bool" where
  "plain_keys name_to_class_map = list_all (\<lambda>k. CHR ''.'' \<notin> set k) (map fst name_to_class_map)"

definition well_formed :: "('df, 'ff, 'ck) cid \<Rightarrow> bool" where
  "well_formed c \<longleftrightarrow>
     fields_consistent c \<and> checks_consistent c
   \<and> plain_keys (check_name_to_class_map c) \<and> plain_keys (field_format_name_to_class_map c)"

text \<open>
  The objects a program can hold: \<open>Cid()\<close>, and what a call of \<open>read\<close>, of
  \<open>add_field_format\<close>, of \<open>add_check\<close> or of \<open>field_value_for\<close> leaves, whether it
  returns or raises; also what one row of \<open>read\<close> leaves.
\<close>

inductive reachable :: "('df, 'ff, 'ck) ext \<Rightarrow> ('df, 'ff, 'ck) cid \<Rightarrow> bool" for e where
  created: "Cid check_classes field_format_classes = Inr c \<Longrightarrow> reachable e c"
| after_read: "reachable e c \<Longrightarrow> read e c source_path rows = (r, c') \<Longrightarrow> reachable e c'"
| after_read_row: "reachable e c \<Longrightarrow> read_row e c row = (r, c') \<Longrightarrow> reachable e c'"
| after_add_field_format:
    "reachable e c \<Longrightarrow> add_field_format e c items = (r, c') \<Longrightarrow> reachable e c'"
| after_add_check: "reachable e c \<Longrightarrow> add_check e c items = (r, c') \<Longrightarrow> reachable e c'"
| after_field_value_for:
    "reachable e c \<Longrightarrow> field_value_for e c name row = (v, c') \<Longrightarrow> reachable e c'"


text \<open>
  What \<open>_create_class\<close> gives for a qualifier that is not empty, written with the
  final component of the qualifier and the qualifier its error quotes as two arguments.
\<close>

definition resolution ::
  "(string \<Rightarrow> string) \<Rightarrow> (string \<times> pyclass) list \<Rightarrow> string \<Rightarrow> string \<Rightarrow> error_kind
     \<Rightarrow> string \<Rightarrow> string \<Rightarrow> error + pyclass" where
  "resolution repr name_to_class_map class_name_appendix type_name error_to_raise
       component quoted =
     (if name_to_class_map = [] \<or> class_name_appendix = [] \<or> type_name = [] then
        Inl (assertion_failed [])
      else
        (case map_of name_to_class_map (component @ class_name_appendix) of
           Some cls \<Rightarrow> Inr cls
         | None \<Rightarrow>
             Inl (unknown_class repr name_to_class_map quoted (component @ class_name_appendix)
                    type_name error_to_raise)))"

section \<open>A sample configuration\<close>

text \<open>
  Collaborators for the concrete rows below: a data format is its format name, a field
  format is the length text it was given (\<open>"4"\<close> is the interval \<open>[4, 4]\<close>, \<open>"3:5"\<close>
  the interval \<open>[3, 5]\<close>, anything else no length), a check is its rule with the
  location it was given. The registries hold the classes \<open>IsUniqueCheck\<close>,
  \<open>IntegerFieldFormat\<close> and \<open>TextFieldFormat\<close>.
\<close>

definition sample_ext :: "(string, string option, string \<times> input_location option) ext" where
  "sample_ext =
     \<lparr>validated_field_name =
        (\<lambda>name l. if strip name = []
                   then Inl (Error FieldSyntaxError (Msg ''field name must not be empty'' [])
                               (Some l) None)
                   else Inr (strip name)),
      new_field_format = (\<lambda>cls name is_allowed_to_be_empty len rule the_format. Inr len),
      set_example = (\<lambda>field_format example. Inr field_format),
      length_items =
        (\<lambda>field_format.
           if field_format = Some ''4'' then Some [(Some 4, Some 4)]
           else if field_format = Some ''3:5'' then Some [(Some 3, Some 5)]
           else None),
      length_text = (\<lambda>field_format. case field_format of None \<Rightarrow> [] | Some t \<Rightarrow> t),
      DataFormat = (\<lambda>format l. Inr format),
      set_property = (\<lambda>the_format name val. Inr the_format),
      format_of = (\<lambda>the_format. the_format),
      new_check = (\<lambda>cls description rule names l. Inr (rule, l)),
      check_location = snd,
      generate_tokens =
        (\<lambda>t. if t = [] then [Inr (ENDMARKER, [])] else [Inr (NAME, t), Inr (ENDMARKER, [])]),
      py_repr = (\<lambda>s. [CHR 0x27] @ s @ [CHR 0x27]),
      create_caller_input_location = InputLocation ''caller'' False\<rparr>"

definition cls_IsUniqueCheck :: pyclass where
  "cls_IsUniqueCheck =
     \<lparr>cls_name = ''IsUniqueCheck'', cls_module = ''cutplace.checks'',
      cls_sourcefile = SourcePath ''cutplace/checks.py''\<rparr>"

definition cls_IntegerFieldFormat :: pyclass where
  "cls_IntegerFieldFormat =
     \<lparr>cls_name = ''IntegerFieldFormat'', cls_module = ''cutplace.fields'',
      cls_sourcefile = SourcePath ''cutplace/fields.py''\<rparr>"

definition cls_TextFieldFormat :: pyclass where
  "cls_TextFieldFormat =
     \<lparr>cls_name = ''TextFieldFormat'', cls_module = ''cutplace.fields'',
      cls_sourcefile = SourcePath ''cutplace/fields.py''\<rparr>"

text \<open>The object \<open>Cid()\<close> with these classes, before any row is read.\<close>

definition sample_cid :: "(string, string option, string \<times> input_location option) cid" where
  "sample_cid =
     \<lparr>data_format = None, field_names = [], field_formats = [],
      field_name_to_format_map = [], field_name_to_index_map = [],
      check_names = [], check_name_to_check_map = [], location = None,
      check_name_to_class_map = [(''IsUniqueCheck'', cls_IsUniqueCheck)],
      field_format_name_to_class_map =
        [(''IntegerFieldFormat'', cls_IntegerFieldFormat),
         (''TextFieldFormat'', cls_TextFieldFormat)]\<rparr>"

text \<open>The location of the first cell of line \<open>n\<close> of the file \<open>"icd"\<close>.\<close>

definition at_line :: "nat \<Rightarrow> input_location" where
  "at_line n = \<lparr>loc_path = ''icd'', loc_line = n, loc_cell = 1, loc_has_cell = True\<rparr>"

text \<open>
  \<open>sample_cid\<close> after the rows \<open>["d", "format", "fixed"]\<close> and
  \<open>["f", "id", "1", "", "4", "Integer", ""]\<close> of the file \<open>"icd"\<close>.
\<close>

definition sample_fixed_cid ::
  "(string, string option, string \<times> input_location option) cid" where
  "sample_fixed_cid =
     sample_cid\<lparr>data_format := Some ''fixed'', field_names := [''id''],
       field_formats := [Some ''4''], field_name_to_format_map := [(''id'', Some ''4'')],
       field_name_to_index_map := [(''id'', 0)], location := Some (at_line 3)\<rparr>"

text \<open>
  \<open>sample_fixed_cid\<close> after the further row \<open>["c", "desc1", "", "IsUnique", "id"]\<close>.
\<close>

definition sample_checked_cid ::
  "(string, string option, string \<times> input_location option) cid" where
  "sample_checked_cid =
     sample_fixed_cid\<lparr>check_names := [''desc1''],
       check_name_to_check_map := [(''desc1'', (''id'', Some (at_line 3)))],
       location := Some (at_line 4)\<rparr>"

section \<open>Rows as \<open>read\<close> sees them\<close>

lemma row_data_of_length: "length (row_data_of row) = 6"
  by (simp add: row_data_of_def)

lemma row_data_of_cells:
  "row_data_of row = map (\<lambda>i. if i + 1 < length row then row ! (i + 1) else []) [0..<6]"
proof (rule nth_equalityI)
  show "length (row_data_of row)
        = length (map (\<lambda>i. if i + 1 < length row then row ! (i + 1) else []) [0..<6])"
    by (simp add: row_data_of_def)
next
  fix i
  assume "i < length (row_data_of row)"
  then show "row_data_of row ! i
             = map (\<lambda>i. if i + 1 < length row then row ! (i + 1) else []) [0..<6] ! i"
    by (auto simp add: row_data_of_def nth_append nth_tl)
qed

lemma row_data_of_take: "row_data_of (take 7 row) = row_data_of row"
proof (cases row)
  case Nil
  then show ?thesis by (simp add: row_data_of_def)
next
  case (Cons x xs)
  have "take 6 (take 6 xs @ replicate 6 []) = take 6 (xs @ replicate 6 ([]::string))"
    by (simp add: min_def)
  with Cons show ?thesis by (simp add: row_data_of_def numeral_eq_Suc)
qed

lemma read_row_take:
  assumes "row \<noteq> []"
  shows "read_row e c (take 7 row) = read_row e c row"
proof -
  from assms have "take 7 row ! 0 = row ! 0" by (cases row) simp_all
  then show ?thesis unfolding read_row_def row_data_of_take by simp
qed

lemma read_rows_take: "read_rows e c (map (take 7) rows) = read_rows e c rows"
proof (induction rows arbitrary: c)
  case Nil
  show ?case by simp
next
  case (Cons row rows)
  show ?case
  proof (cases "row = []")
    case True
    then show ?thesis using Cons.IH by (simp split: option.splits)
  next
    case False
    then have "take 7 row \<noteq> []" by (cases row) simp_all
    with False show ?thesis using Cons.IH
      by (simp add: read_row_take split: prod.splits option.splits)
  qed
qed

lemma read_rows_continue:
  assumes "row \<noteq> []"
  shows "read_rows e c (row # rows) = continue_read e (read_row e c row) rows"
  using assms by (simp add: continue_read_def)

lemma read_row_field:
  assumes "lower (row ! 0) = ''f''"
  shows "read_row e c row = add_field_format e c (row_data_of row)"
  using assms by (simp add: read_row_def)

lemma read_row_check:
  assumes "lower (row ! 0) = ''c''"
  shows "read_row e c row = add_check e c (row_data_of row)"
  using assms by (simp add: read_row_def)

lemma row_data_of_tagged: "row_data_of (tag # row_data_of row) = row_data_of row"
  by (simp add: row_data_of_def)

lemma read_row_tagged:
  assumes "row \<noteq> []"
  shows "read_row e c row = read_row e c (row ! 0 # row_data_of row)"
  unfolding read_row_def row_data_of_tagged by simp

lemma read_row_data_format:
  assumes "lower (row ! 0) = ''d''"
  shows "read_row e c row
         = read_row e c [row ! 0, row_data_of row ! 0, row_data_of row ! 1]"
proof -
  have "row_data_of [row ! 0, row_data_of row ! 0, row_data_of row ! 1] ! 0 = row_data_of row ! 0"
    and "row_data_of [row ! 0, row_data_of row ! 0, row_data_of row ! 1] ! 1 = row_data_of row ! 1"
    by (simp_all add: row_data_of_def)
  with assms show ?thesis by (simp add: read_row_def Let_def)
qed

text \<open>
  Claim C10. For a row that is not empty, \<open>read\<close> runs the body of its loop on the
  row and goes on with \<open>advance_line\<close>; the body depends on the row through its tag
  cell and the six cells \<open>row_data_of\<close> gives, a shorter row padded with empty strings
  and a longer one cut: a row tagged \<open>f\<close> is \<open>add_field_format\<close> on these six cells, a
  row tagged \<open>c\<close> is \<open>add_check\<close> on them, a row tagged \<open>d\<close> reads the first two
  of them. So the cells of a raw row from index 7 on have no effect: reading the rows
  cut to their first seven cells gives the same error, with the same text and location,
  and leaves the same object.
\<close>

theorem read_ignores_cells_from_7:
  "read e c source_path (map (take 7) rows) = read e c source_path rows
   \<and> length (row_data_of row) = 6
   \<and> row_data_of row = map (\<lambda>i. if i + 1 < length row then row ! (i + 1) else []) [0..<6]
   \<and> row_data_of (take 7 row) = row_data_of row
   \<and> (row \<noteq> [] \<longrightarrow>
        read e c source_path (row # rows)
        = continue_read e
            (read_row e (c\<lparr>location := Some (InputLocation source_path True)\<rparr>) row) rows
      \<and> read_row e c row = read_row e c (row ! 0 # row_data_of row))
   \<and> (lower (row ! 0) = ''f'' \<longrightarrow>
        read_row e c row = add_field_format e c (row_data_of row))
   \<and> (lower (row ! 0) = ''c'' \<longrightarrow>
        read_row e c row = add_check e c (row_data_of row))
   \<and> (lower (row ! 0) = ''d'' \<longrightarrow>
        read_row e c row = read_row e c [row ! 0, row_data_of row ! 0, row_data_of row ! 1])
   \<and> (row \<noteq> [] \<and> lower (row ! 0) = ''f'' \<longrightarrow>
        read e c source_path (row # rows)
        = continue_read e
            (add_field_format e (c\<lparr>location := Some (InputLocation source_path True)\<rparr>)
               (row_data_of row)) rows)
   \<and> (row \<noteq> [] \<and> lower (row ! 0) = ''c'' \<longrightarrow>
        read e c source_path (row # rows)
        = continue_read e
            (add_check e (c\<lparr>location := Some (InputLocation source_path True)\<rparr>)
               (row_data_of row)) rows)"
proof (intro conjI impI)
  show "read e c source_path (map (take 7) rows) = read e c source_path rows"
    by (simp add: read_def read_rows_take)
  show "length (row_data_of row) = 6"
    by (rule row_data_of_length)
  show "row_data_of row
        = map (\<lambda>i. if i + 1 < length row then row ! (i + 1) else []) [0..<6]"
    by (rule row_data_of_cells)
  show "row_data_of (take 7 row) = row_data_of row"
    by (rule row_data_of_take)
  show "read e c source_path (row # rows)
        = continue_read e
            (read_row e (c\<lparr>location := Some (InputLocation source_path True)\<rparr>) row) rows"
    if "row \<noteq> []"
    using that unfolding read_def by (rule read_rows_continue)
  show "read_row e c row = read_row e c (row ! 0 # row_data_of row)" if "row \<noteq> []"
    using that by (rule read_row_tagged)
  show "read_row e c row = add_field_format e c (row_data_of row)" if "lower (row ! 0) = ''f''"
    using that by (rule read_row_field)
  show "read_row e c row = add_check e c (row_data_of row)" if "lower (row ! 0) = ''c''"
    using that by (rule read_row_check)
  show "read_row e c row = read_row e c [row ! 0, row_data_of row ! 0, row_data_of row ! 1]"
    if "lower (row ! 0) = ''d''"
    using that by (rule read_row_data_format)
  show "read e c source_path (row # rows)
        = continue_read e
            (add_field_format e (c\<lparr>location := Some (InputLocation source_path True)\<rparr>)
               (row_data_of row)) rows"
    if "row \<noteq> [] \<and> lower (row ! 0) = ''f''"
  proof -
    from that have nonempty: "row \<noteq> []" and tag: "lower (row ! 0) = ''f''" by simp_all
    show ?thesis
      unfolding read_def read_rows_continue [OF nonempty] read_row_field [OF tag] by (rule refl)
  qed
  show "read e c source_path (row # rows)
        = continue_read e
            (add_check e (c\<lparr>location := Some (InputLocation source_path True)\<rparr>)
               (row_data_of row)) rows"
    if "row \<noteq> [] \<and> lower (row ! 0) = ''c''"
  proof -
    from that have nonempty: "row \<noteq> []" and tag: "lower (row ! 0) = ''c''" by simp_all
    show ?thesis
      unfolding read_def read_rows_continue [OF nonempty] read_row_check [OF tag] by (rule refl)
  qed
qed

theorem read_ignores_cells_from_7_witness:
  "read sample_ext sample_cid ''icd''
     [[''D'', ''format'', ''fixed'', [], [], [], [], ''beyond''],
      [''f'', ''id'', ''1'', [], ''4'', ''Integer'', [], ''beyond'', ''more'']]
   = (None, sample_fixed_cid)
   \<and> read sample_ext sample_cid ''icd''
     [[''f'', ''id'', ''1'', [], ''4'', ''Integer'', [], ''beyond'']]
     = continue_read sample_ext
         (add_field_format sample_ext (sample_cid\<lparr>location := Some (at_line 1)\<rparr>)
            [''id'', ''1'', [], ''4'', ''Integer'', []]) []"
proof -
  let ?rows = "[[''D'', ''format'', ''fixed'', [], [], [], [], ''beyond''],
      [''f'', ''id'', ''1'', [], ''4'', ''Integer'', [], ''beyond'', ''more'']]"
  let ?row = "[''f'', ''id'', ''1'', [], ''4'', ''Integer'', [], ''beyond'']"
  note t = read_ignores_cells_from_7
             [where e = sample_ext and c = sample_cid and source_path = "''icd''"]
  from t [where rows = ?rows]
  have "read sample_ext sample_cid ''icd'' (map (take 7) ?rows)
        = read sample_ext sample_cid ''icd'' ?rows"
    by (rule conjunct1)
  moreover have "read sample_ext sample_cid ''icd'' (map (take 7) ?rows) = (None, sample_fixed_cid)"
    by code_simp
  ultimately have first: "read sample_ext sample_cid ''icd'' ?rows = (None, sample_fixed_cid)"
    by simp
  have tag: "?row \<noteq> [] \<and> lower (?row ! 0) = ''f''" by code_simp
  have cells: "row_data_of ?row = [''id'', ''1'', [], ''4'', ''Integer'', []]" by code_simp
  have start: "InputLocation ''icd'' True = at_line 1" by code_simp
  from t [where row = ?row and rows = "[]"] tag
  have "read sample_ext sample_cid ''icd'' (?row # [])
        = continue_read sample_ext
            (add_field_format sample_ext
               (sample_cid\<lparr>location := Some (InputLocation ''icd'' True)\<rparr>)
               (row_data_of ?row)) []"
    by blast
  with cells start first show ?thesis by simp
qed

section \<open>The scan for the check type\<close>

lemma foldl_scan_step_unresolved:
  "(\<And>j. j \<in> set js \<Longrightarrow> map_of m (items ! j @ ''Check'') = None) \<Longrightarrow>
   foldl (scan_step m items) s js = s"
  by (induction js arbitrary: s) (simp_all add: scan_step_def)

lemma scan_check_type_none:
  assumes "\<And>j. 1 \<le> j \<Longrightarrow> j < length items \<Longrightarrow> map_of m (items ! j @ ''Check'') = None"
  shows "scan_check_type m items = (None, 2)"
  unfolding scan_check_type_def using assms by (intro foldl_scan_step_unresolved) simp

lemma scan_check_type_last:
  assumes "1 \<le> i" and "i < length items"
    and "map_of m (items ! i @ ''Check'') \<noteq> None"
    and "\<And>j. i < j \<Longrightarrow> j < length items \<Longrightarrow> map_of m (items ! j @ ''Check'') = None"
  shows "scan_check_type m items = (Some (items ! i), i + 1)"
proof -
  have split: "[1..<length items] = [1..<i] @ i # [Suc i..<length items]"
    using assms(1,2) upt_add_eq_append [of 1 i "length items - i"] by (simp add: upt_conv_Cons)
  have "foldl (scan_step m items) (None, 2) [1..<length items]
        = foldl (scan_step m items)
            (scan_step m items (foldl (scan_step m items) (None, 2) [1..<i]) i)
            [Suc i..<length items]"
    unfolding split by simp
  also have "scan_step m items (foldl (scan_step m items) (None, 2) [1..<i]) i
             = (Some (items ! i), i + 1)"
    using assms(3) by (simp add: scan_step_def)
  also have "foldl (scan_step m items) (Some (items ! i), i + 1) [Suc i..<length items]
             = (Some (items ! i), i + 1)"
    using assms(4) by (intro foldl_scan_step_unresolved) simp
  finally show ?thesis by (simp add: scan_check_type_def)
qed

lemma add_check_type_in_last_cell:
  assumes "3 \<le> length items" and "last items \<noteq> []"
    and "map_of (check_name_to_class_map c) (last items @ ''Check'') \<noteq> None"
  shows "add_check e c items = (Some index_out_of_range, c)"
proof -
  have nonempty: "items \<noteq> []" using assms(1) by auto
  have l: "last items = items ! (length items - 1)"
    using nonempty by (simp add: last_conv_nth)
  have "scan_check_type (check_name_to_class_map c) items
        = (Some (items ! (length items - 1)), (length items - 1) + 1)"
    using assms by (intro scan_check_type_last) (simp_all add: l)
  moreover have "\<not> (length items - 1) + 1 < length items" by simp
  ultimately show ?thesis using assms(1,2) by (simp add: add_check_def l Let_def)
qed

text \<open>
  Claim C9. A check row whose sixth cell after the tag is not empty and, with
  \<open>"Check"\<close> appended, is a key of the check registry: \<open>add_check\<close> gets the six cells,
  the scan ends with \<open>rule_index\<close> equal to the length of the row, and
  \<open>items[rule_index]\<close> raises the \<open>IndexError\<close>; \<open>read\<close> ends with it, the object
  unchanged.
\<close>

theorem read_type_in_last_cell_index_error:
  assumes "row \<noteq> []" and "lower (row ! 0) = ''c''"
    and "row_data_of row ! 5 \<noteq> []"
    and "map_of (check_name_to_class_map c) (row_data_of row ! 5 @ ''Check'') \<noteq> None"
  shows "length (row_data_of row) \<ge> 3
         \<and> add_check e c (row_data_of row) = (Some index_out_of_range, c)
         \<and> read_row e c row = (Some index_out_of_range, c)
         \<and> read_rows e c (row # rows) = (Some index_out_of_range, c)"
proof -
  have len: "length (row_data_of row) = 6" by (simp add: row_data_of_def)
  then have "row_data_of row \<noteq> []" by auto
  then have l: "last (row_data_of row) = row_data_of row ! 5"
    using len by (simp add: last_conv_nth)
  have a: "add_check e c (row_data_of row) = (Some index_out_of_range, c)"
    using assms(3,4) len by (intro add_check_type_in_last_cell) (simp_all add: l)
  have r: "read_row e c row = (Some index_out_of_range, c)"
    using assms(2) a by (simp add: read_row_def)
  show ?thesis using len a r assms(1) by simp
qed

theorem read_type_in_last_cell_index_error_witness:
  "read sample_ext sample_cid ''icd'' [[''c'', ''desc1'', [], [], [], [], ''IsUnique'']]
   = (Some index_out_of_range, sample_cid\<lparr>location := Some (at_line 1)\<rparr>)"
proof -
  have 1: "[''c'', ''desc1'', [], [], [], [], ''IsUnique''] \<noteq> []" by simp
  have 2: "lower ([''c'', ''desc1'', [], [], [], [], ''IsUnique''] ! 0) = ''c''" by code_simp
  have 3: "row_data_of [''c'', ''desc1'', [], [], [], [], ''IsUnique''] ! 5 \<noteq> []"
    by code_simp
  have 4: "map_of (check_name_to_class_map (sample_cid\<lparr>location := Some (at_line 1)\<rparr>))
             (row_data_of [''c'', ''desc1'', [], [], [], [], ''IsUnique''] ! 5 @ ''Check'')
           \<noteq> None"
    by code_simp
  have "sample_cid\<lparr>location := Some (InputLocation ''icd'' True)\<rparr>
        = sample_cid\<lparr>location := Some (at_line 1)\<rparr>"
    by code_simp
  then show ?thesis
    using read_type_in_last_cell_index_error [OF 1 2 3 4, of sample_ext "[]"]
    by (simp add: read_def)
qed

section \<open>The accessor \<open>field_value_for\<close>\<close>

text \<open>
  Claim C1. For a row with as many items as there are fields the source calls
  \<open>self.get_field_name_index\<close>, a method the class does not have: the call ends with
  an \<open>AttributeError\<close> for every such row, whatever the field name, and never gives
  \<open>row[field_index(name)]\<close>. For a row of any other length it raises the
  \<open>DataFormatValueError\<close> with the location \<open>create_caller_input_location()\<close> gives,
  which it also stores in the object.
\<close>

theorem field_value_for_attribute_error:
  "(length row = length (field_names c) \<longrightarrow>
      field_value_for e c name row
      = (Inl (attribute_missing ''Cid'' ''get_field_name_index''), c))
   \<and> (length row \<noteq> length (field_names c) \<longrightarrow>
      field_value_for e c name row
      = (Inl (Error DataFormatValueError
                (Msg ''row must have %d items but has %d: %s''
                   [Num (int (length (field_names c))), Num (int (length row)), Seq row])
                (Some (create_caller_input_location e)) None),
         c\<lparr>location := Some (create_caller_input_location e)\<rparr>))"
  by (simp add: field_value_for_def Cid_index_method_def)

theorem field_value_for_attribute_error_witness:
  "field_value_for sample_ext sample_fixed_cid ''id'' [''1234'']
   = (Inl (attribute_missing ''Cid'' ''get_field_name_index''), sample_fixed_cid)
   \<and> field_index sample_ext sample_fixed_cid ''id'' = Inr 0
   \<and> err_kind (attribute_missing ''Cid'' ''get_field_name_index'') = AttributeError"
proof -
  have "length [''1234''] = length (field_names sample_fixed_cid)" by code_simp
  then have "field_value_for sample_ext sample_fixed_cid ''id'' [''1234'']
   = (Inl (attribute_missing ''Cid'' ''get_field_name_index''), sample_fixed_cid)"
    using field_value_for_attribute_error [of "[''1234'']" sample_fixed_cid sample_ext "''id''"]
    by simp
  moreover have "field_index sample_ext sample_fixed_cid ''id'' = Inr 0" by code_simp
  ultimately show ?thesis by (simp add: attribute_missing_def)
qed

section \<open>What a call leaves\<close>

lemma same_but_location: "\<exists>lo. c = c\<lparr>location := lo\<rparr>"
  by (rule exI [of _ "location c"]) simp

lemma update_new_key: "map_of al k = None \<Longrightarrow> AList.update k v al = al @ [(k, v)]"
  by (induction al) (auto split: if_splits)

lemma map_of_None_keys: "map_of al k = None \<longleftrightarrow> k \<notin> set (map fst al)"
  by (simp add: map_of_eq_None_iff)

lemma validated_fixed_length_None:
  "validated_fixed_length e l name ff = None \<longleftrightarrow>
   (\<exists>n. 1 \<le> n \<and> length_items e ff = Some [(Some n, Some n)])"
  by (auto simp add: validated_fixed_length_def split: option.splits list.splits if_splits)


lemma read_field_cells_name:
  assumes "read_field_cells e l items = (Inr cells, l')"
  shows "validated_field_name e (items ! 0) l = Inr (name_cell cells)"
  using assms
  by (auto simp add: read_field_cells_def Let_def split: sum.splits if_splits)

lemma new_validated_field_format_Inr:
  assumes "new_validated_field_format e c df l cells = (Inr ff, l')"
  shows "map_of (field_name_to_format_map c) (name_cell cells) = None
         \<and> (format_of e df = FORMAT_FIXED \<longrightarrow>
              (\<exists>n. 1 \<le> n \<and> length_items e ff = Some [(Some n, Some n)]))"
  using assms
  by (auto simp add: new_validated_field_format_def
      dest: validated_fixed_length_None [THEN iffD1]
      split: sum.splits prod.splits if_splits option.splits)

lemma add_field_format_outcome:
  assumes "add_field_format e c items = (r, c')"
  shows "(r \<noteq> None \<and> (\<exists>lo. c' = c\<lparr>location := lo\<rparr>))
       \<or> (\<exists>l df cells l1 ff l2.
            location c = Some l \<and> data_format c = Some df
          \<and> read_field_cells e l items = (Inr cells, l1)
          \<and> new_validated_field_format e c df l1 cells = (Inr ff, l2)
          \<and> c' = field_added c (set_cell 1 l2) (name_cell cells) ff)"
proof (cases "location c")
  case None
  with assms have "r \<noteq> None \<and> c' = c\<lparr>location := location c\<rparr>"
    by (auto simp add: add_field_format_def)
  then show ?thesis by blast
next
  case (Some l)
  show ?thesis
  proof (cases "data_format c")
    case None
    with Some assms have "r \<noteq> None \<and> c' = c\<lparr>location := location c\<rparr>"
      by (auto simp add: add_field_format_def)
    then show ?thesis by blast
  next
    case df: (Some df)
    show ?thesis
    proof (cases "length (field_formats c) = length (field_names c)
          \<and> length (field_name_to_format_map c) = length (field_names c)
          \<and> length (field_name_to_index_map c) = length (field_names c)
          \<and> Suc 0 \<le> length items")
      case False
      with Some df assms have "r \<noteq> None \<and> c' = c\<lparr>location := location c\<rparr>"
        by (auto simp add: add_field_format_def Let_def split: if_splits)
      then show ?thesis by blast
    next
      case True
      obtain rc l1 where rc: "read_field_cells e l items = (rc, l1)"
        by (cases "read_field_cells e l items")
      show ?thesis
      proof (cases rc)
        case (Inl err)
        with rc True Some df assms have "r \<noteq> None \<and> c' = c\<lparr>location := Some l1\<rparr>"
          by (auto simp add: add_field_format_def Let_def)
        then show ?thesis by blast
      next
        case (Inr cells)
        obtain rf l2 where rf: "new_validated_field_format e c df l1 cells = (rf, l2)"
          by (cases "new_validated_field_format e c df l1 cells")
        show ?thesis
        proof (cases rf)
          case (Inl err)
          with rf Inr rc True Some df assms
          have "r \<noteq> None \<and> c' = c\<lparr>location := Some l2\<rparr>"
            by (auto simp add: add_field_format_def Let_def)
          then show ?thesis by blast
        next
          case ff: (Inr ff)
          with rf Inr rc True Some df assms
          have "c' = field_added c (set_cell 1 l2) (name_cell cells) ff"
            by (auto simp add: add_field_format_def Let_def field_added_def)
          with rf ff Inr rc Some df show ?thesis by blast
        qed
      qed
    qed
  qed
qed

lemma store_check_outcome:
  assumes "store_check e c description cls rule = (r, c')"
  shows "(r \<noteq> None \<and> (\<exists>lo. c' = c\<lparr>location := lo\<rparr>))
       \<or> (\<exists>l check. location c = Some l
             \<and> new_check e cls description rule (field_names c) (Some l) = Inr check
             \<and> map_of (check_name_to_check_map c) description = None
             \<and> c' = check_added c (set_cell 1 l) description check)"
  using assms
  by (auto simp add: store_check_def check_added_def Let_def same_but_location
      split: sum.splits option.splits if_splits)

lemma add_check_stored_or_refused:
  "(\<exists>cls rule. add_check e c items = store_check e c (items ! 0) cls rule)
   \<or> (\<exists>err. add_check e c items = (Some err, c))"
  by (simp add: add_check_def Let_def split: prod.splits option.splits sum.splits) blast

lemma add_check_outcome:
  assumes "add_check e c items = (r, c')"
  shows "(r \<noteq> None \<and> (\<exists>lo. c' = c\<lparr>location := lo\<rparr>))
       \<or> (\<exists>l cls rule check. location c = Some l
             \<and> new_check e cls (items ! 0) rule (field_names c) (Some l) = Inr check
             \<and> map_of (check_name_to_check_map c) (items ! 0) = None
             \<and> c' = check_added c (set_cell 1 l) (items ! 0) check)"
proof -
  from add_check_stored_or_refused [of e c items]
  show ?thesis
  proof (elim disjE exE)
    fix cls rule
    assume "add_check e c items = store_check e c (items ! 0) cls rule"
    with assms have "store_check e c (items ! 0) cls rule = (r, c')" by simp
    from store_check_outcome [OF this] show ?thesis by blast
  next
    fix err
    assume "add_check e c items = (Some err, c)"
    with assms have "r \<noteq> None" and "c' = c\<lparr>location := location c\<rparr>" by auto
    then show ?thesis by blast
  qed
qed

lemma read_row_outcome:
  assumes "read_row e c row = (r, c')"
  shows "(c' = c\<lparr>location := location c', data_format := data_format c'\<rparr>
            \<and> (data_format c' = None \<longrightarrow> data_format c = None))
       \<or> add_field_format e c (row_data_of row) = (r, c')
       \<or> add_check e c (row_data_of row) = (r, c')"
proof -
  consider (d) "lower (row ! 0) = ''d''" | (f) "lower (row ! 0) = ''f''"
    | (c) "lower (row ! 0) = ''c''"
    | (other) "lower (row ! 0) \<noteq> ''d''" "lower (row ! 0) \<noteq> ''f''" "lower (row ! 0) \<noteq> ''c''"
    by blast
  then show ?thesis
  proof cases
    case d
    with assms have "c' = c\<lparr>location := location c', data_format := data_format c'\<rparr>
            \<and> (data_format c' = None \<longrightarrow> data_format c = None)"
      by (auto simp add: read_row_def Let_def split: option.splits sum.splits if_splits)
    then show ?thesis by blast
  next
    case f
    with assms show ?thesis by (simp add: read_row_def)
  next
    case c
    with assms show ?thesis by (simp add: read_row_def)
  next
    case other
    with assms have "c' = c" by (auto simp add: read_row_def Let_def split: if_splits)
    then show ?thesis by simp
  qed
qed

text \<open>
  A property of the schema that no change of the location or of the data format
  touches, that storing a field keeps and that storing a check keeps, holds of what
  \<open>read\<close> leaves.
\<close>

lemma read_rows_preserves:
  assumes "read_rows e c rows = (r, c')" and "P c"
    and step: "\<And>c row r c'. P c \<Longrightarrow> read_row e c row = (r, c') \<Longrightarrow> P c'"
    and move: "\<And>c lo. P c \<Longrightarrow> P (c\<lparr>location := lo\<rparr>)"
  shows "P c'"
  using assms(1,2)
proof (induction rows arbitrary: c)
  case Nil
  then show ?case by simp
next
  case (Cons row rows)
  obtain r1 c1 where first: "(if row \<noteq> [] then read_row e c row else (None, c)) = (r1, c1)"
    by (cases "if row \<noteq> [] then read_row e c row else (None, c)")
  then have c1: "P c1"
    using Cons.prems(2) step [of c row r1 c1] by (auto split: if_splits)
  show ?case
  proof (cases r1)
    case (Some err)
    with first Cons.prems(1) have "c' = c1" by simp
    with c1 show ?thesis by simp
  next
    case None
    show ?thesis
    proof (cases "location c1")
      case no: None
      with None first Cons.prems(1) have "c' = c1" by simp
      with c1 show ?thesis by simp
    next
      case (Some l)
      with None first Cons.prems(1)
      have "read_rows e (c1\<lparr>location := Some (advance_line l)\<rparr>) rows = (r, c')" by simp
      moreover have "P (c1\<lparr>location := Some (advance_line l)\<rparr>)"
        using c1 by (rule move)
      ultimately show ?thesis by (rule Cons.IH)
    qed
  qed
qed

section \<open>The invariants\<close>

lemma fields_consistent_location:
  "fields_consistent (c\<lparr>location := lo\<rparr>) = fields_consistent c"
  by (simp add: fields_consistent_def)

lemma checks_consistent_location:
  "checks_consistent (c\<lparr>location := lo\<rparr>) = checks_consistent c"
  by (simp add: checks_consistent_def)

lemma fields_consistent_field_added:
  assumes "fields_consistent c" and "map_of (field_name_to_format_map c) name = None"
  shows "fields_consistent (field_added c l name ff)"
proof -
  let ?names = "field_names c"
  from assms have new: "name \<notin> set ?names"
    by (simp add: fields_consistent_def map_of_None_keys)
  then have "map_of (zip ?names [0..<length ?names]) name = None"
    by (simp add: map_of_zip_is_None)
  then have index: "AList.update name (length ?names) (zip ?names [0..<length ?names])
               = zip (?names @ [name]) [0..<length (?names @ [name])]"
    by (simp add: update_new_key)
  from assms(2) have format: "AList.update name ff (field_name_to_format_map c)
               = field_name_to_format_map c @ [(name, ff)]"
    by (rule update_new_key)
  show ?thesis using assms(1) new index format
    by (simp add: fields_consistent_def field_added_def)
qed

lemma checks_consistent_check_added:
  assumes "checks_consistent c" and "map_of (check_name_to_check_map c) d = None"
  shows "checks_consistent (check_added c l d k)"
proof -
  from assms have new: "d \<notin> set (check_names c)"
    by (simp add: checks_consistent_def map_of_None_keys)
  from assms(2) have "AList.update d k (check_name_to_check_map c)
               = check_name_to_check_map c @ [(d, k)]"
    by (rule update_new_key)
  with assms(1) new show ?thesis by (simp add: checks_consistent_def check_added_def)
qed

lemma well_formed_location: "well_formed c \<Longrightarrow> well_formed (c\<lparr>location := lo\<rparr>)"
  by (simp add: well_formed_def fields_consistent_def checks_consistent_def)

lemma well_formed_location_data_format:
  "well_formed c \<Longrightarrow> well_formed (c\<lparr>location := lo, data_format := df\<rparr>)"
  by (simp add: well_formed_def fields_consistent_def checks_consistent_def)

lemma well_formed_field_added:
  assumes "well_formed c" and "map_of (field_name_to_format_map c) name = None"
  shows "well_formed (field_added c l name ff)"
proof -
  from assms have "fields_consistent (field_added c l name ff)"
    by (simp add: well_formed_def fields_consistent_field_added)
  moreover from assms(1) have "checks_consistent (field_added c l name ff)"
    by (simp add: well_formed_def checks_consistent_def field_added_def)
  ultimately show ?thesis using assms(1) by (simp add: well_formed_def field_added_def)
qed

lemma well_formed_check_added:
  assumes "well_formed c" and "map_of (check_name_to_check_map c) d = None"
  shows "well_formed (check_added c l d k)"
proof -
  from assms have "checks_consistent (check_added c l d k)"
    by (simp add: well_formed_def checks_consistent_check_added)
  moreover from assms(1) have "fields_consistent (check_added c l d k)"
    by (simp add: well_formed_def fields_consistent_def check_added_def)
  ultimately show ?thesis using assms(1) by (simp add: well_formed_def check_added_def)
qed

lemma add_field_format_well_formed:
  assumes "well_formed c" and "add_field_format e c items = (r, c')"
  shows "well_formed c'"
  using add_field_format_outcome [OF assms(2)] assms(1)
  by (auto simp add: well_formed_location well_formed_field_added
      dest: new_validated_field_format_Inr)

lemma add_check_well_formed:
  assumes "well_formed c" and "add_check e c items = (r, c')"
  shows "well_formed c'"
  using add_check_outcome [OF assms(2)] assms(1)
  by (auto simp add: well_formed_location well_formed_check_added)

lemma read_row_well_formed:
  assumes "well_formed c" and "read_row e c row = (r, c')"
  shows "well_formed c'"
proof -
  from read_row_outcome [OF assms(2)] show ?thesis
  proof (elim disjE conjE)
    assume "c' = c\<lparr>location := location c', data_format := data_format c'\<rparr>"
    then show ?thesis using assms(1) well_formed_location_data_format by metis
  next
    assume "add_field_format e c (row_data_of row) = (r, c')"
    with assms(1) show ?thesis by (rule add_field_format_well_formed)
  next
    assume "add_check e c (row_data_of row) = (r, c')"
    with assms(1) show ?thesis by (rule add_check_well_formed)
  qed
qed

lemma read_well_formed:
  assumes "well_formed c" and "read e c source_path rows = (r, c')"
  shows "well_formed c'"
proof -
  from assms(2)
  have "read_rows e (c\<lparr>location := Some (InputLocation source_path True)\<rparr>) rows = (r, c')"
    by (simp add: read_def)
  moreover from assms(1)
  have "well_formed (c\<lparr>location := Some (InputLocation source_path True)\<rparr>)"
    by (rule well_formed_location)
  ultimately show ?thesis
    by (rule read_rows_preserves) (auto intro: read_row_well_formed well_formed_location)
qed

lemma final_component_plain: "CHR ''.'' \<notin> set (final_component s)"
proof -
  have "split_on c s \<noteq> [] \<and> c \<notin> set (last (split_on c s))" for c
    by (induction s) (auto split: list.splits)
  then show ?thesis by (simp add: final_component_def)
qed

lemma create_name_to_class_map_plain:
  assumes "create_name_to_class_map result classes = Inr m" and "plain_keys result"
  shows "plain_keys m"
  using assms
proof (induction result classes rule: create_name_to_class_map.induct)
  case (1 result)
  then show ?case by simp
next
  case (2 result class_to_process rest)
  let ?name = "final_component (cls_name class_to_process)"
  show ?case
  proof (cases "map_of result ?name")
    case None
    then have "AList.update ?name class_to_process result = result @ [(?name, class_to_process)]"
      by (rule update_new_key)
    with "2.prems"(2) have "plain_keys (AList.update ?name class_to_process result)"
      by (simp add: plain_keys_def final_component_plain)
    with None "2.prems"(1) "2.IH"(1) show ?thesis by simp
  next
    case (Some clashing)
    with "2.prems" "2.IH"(2) show ?thesis
      by (auto split: sum.splits if_splits)
  qed
qed

lemma Cid_well_formed:
  assumes "Cid check_classes field_format_classes = Inr c"
  shows "well_formed c"
proof -
  have empty: "plain_keys []" by (simp add: plain_keys_def)
  from assms obtain km fm where
    km: "create_name_to_class_map [] check_classes = Inr km"
    and fm: "create_name_to_class_map [] field_format_classes = Inr fm"
    and c: "check_name_to_class_map c = km" "field_format_name_to_class_map c = fm"
      "field_names c = []" "field_formats c = []" "field_name_to_format_map c = []"
      "field_name_to_index_map c = []" "check_names c = []" "check_name_to_check_map c = []"
    by (auto simp add: Cid_def split: sum.splits)
  from km fm empty have "plain_keys km" and "plain_keys fm"
    by (auto intro: create_name_to_class_map_plain)
  with c show ?thesis
    by (simp add: well_formed_def fields_consistent_def checks_consistent_def)
qed

lemma reachable_well_formed:
  assumes "reachable e c"
  shows "well_formed c"
  using assms
proof (induction rule: reachable.induct)
  case (created check_classes field_format_classes c)
  then show ?case by (rule Cid_well_formed)
next
  case (after_read c source_path rows r c')
  then show ?case using read_well_formed by blast
next
  case (after_read_row c row r c')
  then show ?case using read_row_well_formed by blast
next
  case (after_add_field_format c items r c')
  then show ?case using add_field_format_well_formed by blast
next
  case (after_add_check c items r c')
  then show ?case using add_check_well_formed by blast
next
  case (after_field_value_for c name row v c')
  then show ?case
    by (auto simp add: field_value_for_def Let_def Cid_index_method_def well_formed_location
        split: if_splits)
qed

text \<open>
  Claim C4. In every object a program can hold, so after every call that stores a field
  or a check and after every call that raises: the field names, the format dictionary,
  the index dictionary and the formats have the same length, the keys of both
  dictionaries are the field names in order, the index stored for a field name is its
  position in the sequence of names (and \<open>field_index\<close> returns it), no field name and
  no check description occurs twice, and the keys of the check dictionary are the
  descriptions in order.
\<close>

theorem reachable_schema_invariant:
  assumes "reachable e c"
  shows "length (field_names c) = length (field_name_to_format_map c)
       \<and> length (field_names c) = length (field_name_to_index_map c)
       \<and> length (field_names c) = length (field_formats c)
       \<and> map fst (field_name_to_format_map c) = field_names c
       \<and> map fst (field_name_to_index_map c) = field_names c
       \<and> (\<forall>i < length (field_names c).
            map_of (field_name_to_index_map c) (field_names c ! i) = Some i
          \<and> field_index e c (field_names c ! i) = Inr i
          \<and> map_of (field_name_to_format_map c) (field_names c ! i) = Some (field_formats c ! i))
       \<and> distinct (field_names c)
       \<and> map fst (check_name_to_check_map c) = check_names c
       \<and> length (check_names c) = length (check_name_to_check_map c)
       \<and> distinct (check_names c)"
proof -
  from reachable_well_formed [OF assms]
  have f: "fields_consistent c" and k: "checks_consistent c" by (simp_all add: well_formed_def)
  let ?names = "field_names c"
  have keys: "map fst (field_name_to_format_map c) = ?names"
    and vals: "map snd (field_name_to_format_map c) = field_formats c"
    and index: "field_name_to_index_map c = zip ?names [0..<length ?names]"
    and dist: "distinct ?names"
    using f by (simp_all add: fields_consistent_def)
  have len1: "length ?names = length (field_name_to_format_map c)"
    using keys by (metis length_map)
  have len3: "length ?names = length (field_formats c)"
    using vals len1 by (metis length_map)
  have zipped: "field_name_to_format_map c = zip ?names (field_formats c)"
    using keys vals by (metis zip_map_fst_snd)
  have at: "map_of (field_name_to_index_map c) (?names ! i) = Some i" if "i < length ?names" for i
    using that dist by (simp add: index map_of_zip_nth)
  have fmt: "map_of (field_name_to_format_map c) (?names ! i) = Some (field_formats c ! i)"
    if "i < length ?names" for i
    using that dist len3 by (subst zipped) (simp add: map_of_zip_nth)
  have idx: "field_index e c (?names ! i) = Inr i" if "i < length ?names" for i
    using at [OF that] by (simp add: field_index_def)
  have keys2: "map fst (field_name_to_index_map c) = ?names"
    by (simp add: index)
  have len2: "length ?names = length (field_name_to_index_map c)"
    by (simp add: index)
  from k have k1: "map fst (check_name_to_check_map c) = check_names c"
    and k2: "distinct (check_names c)"
    by (simp_all add: checks_consistent_def)
  from k1 have k3: "length (check_names c) = length (check_name_to_check_map c)"
    by (metis length_map)
  from at idx fmt
  have "\<forall>i < length ?names.
            map_of (field_name_to_index_map c) (?names ! i) = Some i
          \<and> field_index e c (?names ! i) = Inr i
          \<and> map_of (field_name_to_format_map c) (?names ! i) = Some (field_formats c ! i)"
    by blast
  with len1 len2 len3 keys keys2 dist k1 k2 k3 show ?thesis by blast
qed

theorem reachable_schema_invariant_witness:
  "reachable sample_ext sample_checked_cid
   \<and> field_names sample_checked_cid = [''id'']
   \<and> length (field_name_to_format_map sample_checked_cid) = 1
   \<and> length (field_name_to_index_map sample_checked_cid) = 1
   \<and> field_index sample_ext sample_checked_cid ''id'' = Inr 0
   \<and> check_names sample_checked_cid = [''desc1'']
   \<and> distinct (field_names sample_checked_cid)
   \<and> distinct (check_names sample_checked_cid)"
proof -
  have "Cid [cls_IsUniqueCheck] [cls_IntegerFieldFormat, cls_TextFieldFormat] = Inr sample_cid"
    by code_simp
  then have "reachable sample_ext sample_cid" by (rule reachable.created)
  moreover have "read sample_ext sample_cid ''icd''
          [[''d'', ''format'', ''fixed''],
           [''f'', ''id'', ''1'', [], ''4'', ''Integer'', []],
           [''c'', ''desc1'', [], ''IsUnique'', ''id'']]
        = (None, sample_checked_cid)"
    by code_simp
  ultimately have reach: "reachable sample_ext sample_checked_cid"
    by (rule reachable.after_read)
  have names: "field_names sample_checked_cid = [''id'']"
    and checks: "check_names sample_checked_cid = [''desc1'']"
    by code_simp+
  from reachable_schema_invariant [OF reach] names checks
  have "length (field_name_to_format_map sample_checked_cid) = 1"
    and "length (field_name_to_index_map sample_checked_cid) = 1"
    and "field_index sample_ext sample_checked_cid ([''id''] ! 0) = Inr 0"
    and "distinct (field_names sample_checked_cid)"
    and "distinct (check_names sample_checked_cid)"
    by simp_all
  with reach names checks show ?thesis by simp
qed

lemma fields_of_location: "fields_of (c\<lparr>location := lo\<rparr>) = fields_of c"
  by (simp add: fields_of_def)

lemma checks_of_location: "checks_of (c\<lparr>location := lo\<rparr>) = checks_of c"
  by (simp add: checks_of_def)

lemma well_formed_lengths:
  assumes "well_formed c"
  shows "length (field_formats c) = length (field_names c)
       \<and> length (field_name_to_format_map c) = length (field_names c)
       \<and> length (field_name_to_index_map c) = length (field_names c)"
proof -
  from assms have keys: "map fst (field_name_to_format_map c) = field_names c"
    and vals: "map snd (field_name_to_format_map c) = field_formats c"
    and index: "field_name_to_index_map c = zip (field_names c) [0..<length (field_names c)]"
    by (simp_all add: well_formed_def fields_consistent_def)
  from keys have "length (field_name_to_format_map c) = length (field_names c)"
    by (metis length_map)
  moreover from vals have "length (field_name_to_format_map c) = length (field_formats c)"
    by (metis length_map)
  moreover from index have "length (field_name_to_index_map c) = length (field_names c)"
    by simp
  ultimately show ?thesis by simp
qed

lemma add_field_format_without_data_format:
  assumes "location c = Some l" and "data_format c = None"
  shows "add_field_format e c items
         = (Some (Error CidSyntaxError
                    (Msg ''data format must be specified before first field'' [])
                    (Some l) None), c)"
  using assms by (simp add: add_field_format_def)

lemma read_row_keeps_fields_without_data_format:
  assumes "read_row e c row = (r, c')" and "data_format c' = None"
  shows "data_format c = None \<and> fields_of c' = fields_of c"
proof -
  from read_row_outcome [OF assms(1)] show ?thesis
  proof (elim disjE conjE)
    assume same: "c' = c\<lparr>location := location c', data_format := data_format c'\<rparr>"
      and "data_format c' = None \<longrightarrow> data_format c = None"
    moreover have "fields_of (c\<lparr>location := lo, data_format := df\<rparr>) = fields_of c" for lo df
      by (simp add: fields_of_def)
    with same have "fields_of c' = fields_of c" by metis
    ultimately show ?thesis using assms(2) by simp
  next
    assume "add_field_format e c (row_data_of row) = (r, c')"
    from add_field_format_outcome [OF this] assms(2) show ?thesis
      by (auto simp add: fields_of_location fields_of_def field_added_def)
  next
    assume "add_check e c (row_data_of row) = (r, c')"
    from add_check_outcome [OF this] assms(2) show ?thesis
      by (auto simp add: fields_of_location fields_of_def check_added_def)
  qed
qed

lemma read_keeps_fields_without_data_format:
  assumes "read e c source_path rows = (r, c')" and "data_format c' = None"
  shows "data_format c = None \<and> fields_of c' = fields_of c"
proof -
  let ?P = "\<lambda>x. data_format x = None \<longrightarrow> data_format c = None \<and> fields_of x = fields_of c"
  from assms(1)
  have "read_rows e (c\<lparr>location := Some (InputLocation source_path True)\<rparr>) rows = (r, c')"
    by (simp add: read_def)
  moreover have "?P (c\<lparr>location := Some (InputLocation source_path True)\<rparr>)"
    by (simp add: fields_of_location)
  ultimately have "?P c'"
  proof (rule read_rows_preserves)
    fix x row r x'
    assume "?P x" and "read_row e x row = (r, x')"
    then show "?P x'" using read_row_keeps_fields_without_data_format by metis
  next
    fix x lo
    assume "?P x"
    then show "?P (x\<lparr>location := lo\<rparr>)" by (simp add: fields_of_location)
  qed
  with assms(2) show ?thesis by simp
qed

text \<open>
  Claim C5. With a location and no data format, \<open>add_field_format\<close> raises the
  \<open>CidSyntaxError\<close> \<open>"data format must be specified before first field"\<close> at that
  location and leaves the object as it was, whatever the row. For every sequence of
  rows: an object that has no data format after \<open>read\<close> had none before and has the
  fields it had before; and a field row read first, with no data format, ends \<open>read\<close>
  with that error at the first line.
\<close>

theorem no_field_before_data_format:
  "(\<forall>l. location c = Some l \<and> data_format c = None \<longrightarrow>
      add_field_format e c items
      = (Some (Error CidSyntaxError
                 (Msg ''data format must be specified before first field'' [])
                 (Some l) None), c))
   \<and> (\<forall>r c'. read e c source_path rows = (r, c') \<and> data_format c' = None \<longrightarrow>
        data_format c = None \<and> fields_of c' = fields_of c)
   \<and> (data_format c = None \<and> row \<noteq> [] \<and> lower (row ! 0) = ''f'' \<longrightarrow>
        read e c source_path (row # rows)
        = (Some (Error CidSyntaxError
                   (Msg ''data format must be specified before first field'' [])
                   (Some (InputLocation source_path True)) None),
           c\<lparr>location := Some (InputLocation source_path True)\<rparr>))"
proof (intro conjI allI impI)
  fix l
  assume "location c = Some l \<and> data_format c = None"
  then show "add_field_format e c items
      = (Some (Error CidSyntaxError
                 (Msg ''data format must be specified before first field'' [])
                 (Some l) None), c)"
    by (simp add: add_field_format_without_data_format)
next
  fix r c'
  assume "read e c source_path rows = (r, c') \<and> data_format c' = None"
  then show "data_format c = None" and "fields_of c' = fields_of c"
    using read_keeps_fields_without_data_format by blast+
next
  assume "data_format c = None \<and> row \<noteq> [] \<and> lower (row ! 0) = ''f''"
  then show "read e c source_path (row # rows)
        = (Some (Error CidSyntaxError
                   (Msg ''data format must be specified before first field'' [])
                   (Some (InputLocation source_path True)) None),
           c\<lparr>location := Some (InputLocation source_path True)\<rparr>)"
    by (simp add: read_def read_row_def add_field_format_without_data_format)
qed

theorem no_field_before_data_format_witness:
  "read sample_ext sample_cid ''icd'' [[''f'', ''id'', ''1'', [], ''4'', ''Integer'', []]]
   = (Some (Error CidSyntaxError
              (Msg ''data format must be specified before first field'' [])
              (Some (at_line 1)) None),
      sample_cid\<lparr>location := Some (at_line 1)\<rparr>)
   \<and> field_names (sample_cid\<lparr>location := Some (at_line 1)\<rparr>) = []"
proof -
  have "data_format sample_cid = None" by code_simp
  moreover have "lower ([''f'', ''id'', ''1'', [], ''4'', ''Integer'', []] ! 0) = ''f''"
    by code_simp
  moreover have "InputLocation ''icd'' True = at_line 1" by code_simp
  moreover have "field_names (sample_cid\<lparr>location := Some (at_line 1)\<rparr>) = []" by code_simp
  ultimately show ?thesis
    using no_field_before_data_format
      [where c = sample_cid and e = sample_ext and source_path = "''icd''"
         and row = "[''f'', ''id'', ''1'', [], ''4'', ''Integer'', []]" and rows = "[]"]
    by simp
qed

section \<open>Field rows\<close>

lemma add_field_format_duplicate:
  assumes "location c = Some l" and "data_format c = Some df"
    and "length (field_formats c) = length (field_names c)
       \<and> length (field_name_to_format_map c) = length (field_names c)
       \<and> length (field_name_to_index_map c) = length (field_names c)"
    and "items \<noteq> []"
    and "read_field_cells e l items = (Inr cells, l')"
    and "construct_field_format e c df cells = Inr ff"
    and "map_of (field_name_to_format_map c) (name_cell cells) \<noteq> None"
  shows "add_field_format e c items
         = (Some (Error FieldSyntaxError
                    (Msg ''field name must be used for only one field: %s'' [Str (name_cell cells)])
                    (Some (set_cell 1 l')) None),
            c\<lparr>location := Some (set_cell 1 l')\<rparr>)"
proof -
  from assms(4) have "Suc 0 \<le> length items" by (cases items) simp_all
  moreover from assms(6,7)
  have "new_validated_field_format e c df l' cells
        = (Inl (Error FieldSyntaxError
                    (Msg ''field name must be used for only one field: %s'' [Str (name_cell cells)])
                    (Some (set_cell 1 l')) None), set_cell 1 l')"
    by (auto simp add: new_validated_field_format_def)
  ultimately show ?thesis using assms(1,2,3,5)
    by (simp add: add_field_format_def Let_def)
qed

text \<open>
  Claim C7, amended. A field row whose validated name is already a key of the format dictionary
  is never stored: \<open>add_field_format\<close> raises, and the fields and checks are as before.
  When the cells of the row are read without error and the field format is constructed,
  the error is the \<open>FieldSyntaxError\<close> \<open>"field name must be used for only one field"\<close>
  with the location set to cell 1, which is also the location the object keeps.
\<close>

theorem duplicate_field_name_refused:
  assumes "reachable e c" and "location c = Some l" and "items \<noteq> []"
    and "validated_field_name e (items ! 0) l = Inr name"
    and "map_of (field_name_to_format_map c) name \<noteq> None"
  shows "(\<forall>r c'. add_field_format e c items = (r, c') \<longrightarrow>
            r \<noteq> None \<and> fields_of c' = fields_of c \<and> checks_of c' = checks_of c)
       \<and> (\<forall>df cells l' ff.
            data_format c = Some df
          \<and> read_field_cells e l items = (Inr cells, l')
          \<and> construct_field_format e c df cells = Inr ff \<longrightarrow>
            add_field_format e c items
            = (Some (Error FieldSyntaxError
                       (Msg ''field name must be used for only one field: %s'' [Str name])
                       (Some (set_cell 1 l')) None),
               c\<lparr>location := Some (set_cell 1 l')\<rparr>)
          \<and> loc_cell (set_cell 1 l') = 1)"
proof (intro conjI allI impI)
  fix r c'
  assume call: "add_field_format e c items = (r, c')"
  from add_field_format_outcome [OF call]
  have refused: "r \<noteq> None \<and> (\<exists>lo. c' = c\<lparr>location := lo\<rparr>)"
  proof (elim disjE exE conjE)
    fix l0 df cells l1 ff l2
    assume "location c = Some l0" and "read_field_cells e l0 items = (Inr cells, l1)"
      and new: "new_validated_field_format e c df l1 cells = (Inr ff, l2)"
    with assms(2) have "validated_field_name e (items ! 0) l = Inr (name_cell cells)"
      using read_field_cells_name by fastforce
    with assms(4) have "name_cell cells = name" by simp
    with new_validated_field_format_Inr [OF new] assms(5) show ?thesis by simp
  qed blast
  then show "r \<noteq> None" and "fields_of c' = fields_of c" and "checks_of c' = checks_of c"
    by (auto simp add: fields_of_location checks_of_location)
next
  fix df cells l' ff
  assume h: "data_format c = Some df
          \<and> read_field_cells e l items = (Inr cells, l')
          \<and> construct_field_format e c df cells = Inr ff"
  then have "validated_field_name e (items ! 0) l = Inr (name_cell cells)"
    using read_field_cells_name by blast
  with assms(4) have name: "name_cell cells = name" by simp
  from assms(1) have "well_formed c" by (rule reachable_well_formed)
  then have lens: "length (field_formats c) = length (field_names c)
       \<and> length (field_name_to_format_map c) = length (field_names c)
       \<and> length (field_name_to_index_map c) = length (field_names c)"
    by (rule well_formed_lengths)
  from h have df: "data_format c = Some df"
    and cells: "read_field_cells e l items = (Inr cells, l')"
    and ff: "construct_field_format e c df cells = Inr ff"
    by simp_all
  from assms(5) name have dup: "map_of (field_name_to_format_map c) (name_cell cells) \<noteq> None"
    by simp
  have "add_field_format e c items
         = (Some (Error FieldSyntaxError
                    (Msg ''field name must be used for only one field: %s'' [Str (name_cell cells)])
                    (Some (set_cell 1 l')) None),
            c\<lparr>location := Some (set_cell 1 l')\<rparr>)"
    by (rule add_field_format_duplicate [OF assms(2) df lens assms(3) cells ff dup])
  with name show "add_field_format e c items
            = (Some (Error FieldSyntaxError
                       (Msg ''field name must be used for only one field: %s'' [Str name])
                       (Some (set_cell 1 l')) None),
               c\<lparr>location := Some (set_cell 1 l')\<rparr>)"
    by simp
  show "loc_cell (set_cell 1 l') = 1" by (simp add: set_cell_def)
qed

lemma sample_fixed_cid_reachable: "reachable sample_ext sample_fixed_cid"
proof -
  have "Cid [cls_IsUniqueCheck] [cls_IntegerFieldFormat, cls_TextFieldFormat] = Inr sample_cid"
    by code_simp
  then have "reachable sample_ext sample_cid" by (rule reachable.created)
  moreover have "read sample_ext sample_cid ''icd''
          [[''d'', ''format'', ''fixed''],
           [''f'', ''id'', ''1'', [], ''4'', ''Integer'', []]]
        = (None, sample_fixed_cid)"
    by code_simp
  ultimately show ?thesis by (rule reachable.after_read)
qed

theorem duplicate_field_name_refused_witness:
  "add_field_format sample_ext sample_fixed_cid [''id'', ''1'', [], ''4'', ''Integer'', []]
   = (Some (Error FieldSyntaxError
              (Msg ''field name must be used for only one field: %s'' [Str ''id''])
              (Some (set_cell 1 (at_line 3))) None),
      sample_fixed_cid\<lparr>location := Some (set_cell 1 (at_line 3))\<rparr>)
   \<and> field_names (sample_fixed_cid\<lparr>location := Some (set_cell 1 (at_line 3))\<rparr>) = [''id'']"
proof -
  let ?items = "[''id'', ''1'', [], ''4'', ''Integer'', []]"
  let ?cells = "\<lparr>name_cell = ''id'', example_cell = Some ''1'', empty_cell = False,
                 length_cell = Some ''4'', type_cell = Some ''Integer'', rule_cell = []\<rparr>"
  have 1: "location sample_fixed_cid = Some (at_line 3)" by code_simp
  have 2: "?items \<noteq> []" by simp
  have 3: "validated_field_name sample_ext (?items ! 0) (at_line 3) = Inr ''id''" by code_simp
  have 4: "map_of (field_name_to_format_map sample_fixed_cid) ''id'' \<noteq> None" by code_simp
  have 5: "data_format sample_fixed_cid = Some ''fixed''" by code_simp
  have 6: "read_field_cells sample_ext (at_line 3) ?items
           = (Inr ?cells, at_line 3 \<lparr>loc_cell := 6\<rparr>)"
    by code_simp
  have 7: "construct_field_format sample_ext sample_fixed_cid ''fixed'' ?cells = Inr (Some ''4'')"
    by code_simp
  have 8: "set_cell 1 (at_line 3 \<lparr>loc_cell := 6\<rparr>) = set_cell 1 (at_line 3)" by code_simp
  have 9: "field_names (sample_fixed_cid\<lparr>location := Some (set_cell 1 (at_line 3))\<rparr>) = [''id'']"
    by code_simp
  from duplicate_field_name_refused [OF sample_fixed_cid_reachable 1 2 3 4] 5 6 7
  have "add_field_format sample_ext sample_fixed_cid ?items
   = (Some (Error FieldSyntaxError
              (Msg ''field name must be used for only one field: %s'' [Str ''id''])
              (Some (set_cell 1 (at_line 3 \<lparr>loc_cell := 6\<rparr>))) None),
      sample_fixed_cid\<lparr>location := Some (set_cell 1 (at_line 3 \<lparr>loc_cell := 6\<rparr>))\<rparr>)"
    by blast
  with 8 9 show ?thesis by simp
qed

text \<open>
  As stated, for every row with the name of a defined field, the claim fails by the
  order of the tests: the uniqueness of the name is tested after the cells are read and
  the format is constructed. With \<open>id\<close> defined, the row
  \<open>["id", "1", "maybe", "4", "Integer", ""]\<close> raises the error of the empty mark at
  cell 3, and the row \<open>["id", "1", "", "4", "Date", ""]\<close> the error of the unknown
  class, which has no location.
\<close>

theorem duplicate_field_name_refused_counterexample:
  "add_field_format sample_ext sample_fixed_cid [''id'', ''1'', ''maybe'', ''4'', ''Integer'', []]
   = (Some (Error FieldSyntaxError
              (Msg ''mark for empty field must be %r or empty but is %r''
                 [Repr ''x'', Repr ''maybe''])
              (Some (set_cell 3 (at_line 3))) None),
      sample_fixed_cid\<lparr>location := Some (set_cell 3 (at_line 3))\<rparr>)
   \<and> map_of (field_name_to_format_map sample_fixed_cid) ''id'' = Some (Some ''4'')
   \<and> loc_cell (set_cell 3 (at_line 3)) = 3
   \<and> add_field_format sample_ext sample_fixed_cid [''id'', ''1'', [], ''4'', ''Date'', []]
     = (Some (unknown_class (py_repr sample_ext) (field_format_name_to_class_map sample_fixed_cid)
                ''Date'' ''DateFieldFormat'' ''field'' FieldSyntaxError),
        sample_fixed_cid\<lparr>location := Some (set_cell 6 (at_line 3))\<rparr>)
   \<and> err_location
        (unknown_class (py_repr sample_ext) (field_format_name_to_class_map sample_fixed_cid)
           ''Date'' ''DateFieldFormat'' ''field'' FieldSyntaxError) = None"
  by code_simp





section \<open>Resolution of type names\<close>

lemma split_on_without_separator: "c \<notin> set s \<Longrightarrow> split_on c s = [s]"
  by (induction s) auto

lemma final_component_of_plain: "CHR ''.'' \<notin> set s \<Longrightarrow> final_component s = s"
  by (simp add: final_component_def split_on_without_separator)

lemma final_component_idem: "final_component (final_component q) = final_component q"
  by (simp add: final_component_of_plain final_component_plain)

lemma create_class_resolution:
  assumes "q \<noteq> []"
  shows "create_class repr m q a t k = resolution repr m a t k (final_component q) q"
  using assms by (simp add: create_class_def resolution_def Let_def)

text \<open>
  Claim C8, amended. For a qualifier whose final dot-separated component is not empty,
  and for both registries, resolution depends on the qualifier through its final
  component only, but for the text of the error: it gives the same class as the final
  component alone, or fails the same assertion, or raises an error of the same type
  that names the same class and lists the same known names, sorted and joined by
  \<open>humanReadableList\<close>, and quotes the qualifier as it was given.
\<close>

theorem create_class_final_component:
  assumes "final_component q \<noteq> []"
  shows "create_class repr m q a t k = resolution repr m a t k (final_component q) q
       \<and> create_class repr m (final_component q) a t k
         = resolution repr m a t k (final_component q) (final_component q)
       \<and> create_field_format_class e c q
         = resolution (py_repr e) (field_format_name_to_class_map c) ''FieldFormat'' ''field''
             FieldSyntaxError (final_component q) q
       \<and> create_field_format_class e c (final_component q)
         = resolution (py_repr e) (field_format_name_to_class_map c) ''FieldFormat'' ''field''
             FieldSyntaxError (final_component q) (final_component q)
       \<and> create_check_class e c q
         = resolution (py_repr e) (check_name_to_class_map c) ''Check'' ''check''
             CheckSyntaxError (final_component q) q
       \<and> create_check_class e c (final_component q)
         = resolution (py_repr e) (check_name_to_class_map c) ''Check'' ''check''
             CheckSyntaxError (final_component q) (final_component q)"
proof -
  from assms have q: "q \<noteq> []" by (auto simp add: final_component_def)
  from create_class_resolution [OF q] create_class_resolution [OF assms] q assms
  show ?thesis
    by (simp add: final_component_idem create_field_format_class_def create_check_class_def)
qed

theorem create_class_final_component_witness:
  "create_field_format_class sample_ext sample_cid ''pkg.sub.Integer'' = Inr cls_IntegerFieldFormat
   \<and> create_field_format_class sample_ext sample_cid ''Integer'' = Inr cls_IntegerFieldFormat
   \<and> final_component ''pkg.sub.Integer'' = ''Integer''"
proof -
  have f: "final_component ''pkg.sub.Integer'' = ''Integer''" by code_simp
  then have "final_component ''pkg.sub.Integer'' \<noteq> []" by simp
  from create_class_final_component [OF this, of _ _ _ _ _ sample_ext sample_cid] f
  have "create_field_format_class sample_ext sample_cid ''pkg.sub.Integer''
         = resolution (py_repr sample_ext) (field_format_name_to_class_map sample_cid)
             ''FieldFormat'' ''field'' FieldSyntaxError ''Integer'' ''pkg.sub.Integer''"
    and "create_field_format_class sample_ext sample_cid ''Integer''
         = resolution (py_repr sample_ext) (field_format_name_to_class_map sample_cid)
             ''FieldFormat'' ''field'' FieldSyntaxError ''Integer'' ''Integer''"
    by simp_all
  moreover have "resolution (py_repr sample_ext) (field_format_name_to_class_map sample_cid)
             ''FieldFormat'' ''field'' FieldSyntaxError ''Integer'' ''pkg.sub.Integer''
             = Inr cls_IntegerFieldFormat"
    and "resolution (py_repr sample_ext) (field_format_name_to_class_map sample_cid)
             ''FieldFormat'' ''field'' FieldSyntaxError ''Integer'' ''Integer''
             = Inr cls_IntegerFieldFormat"
    by code_simp+
  ultimately show ?thesis using f by simp
qed

text \<open>
  As stated, for every qualifier and exactly the same outcome, the claim fails: the
  qualifier \<open>"pkg."\<close> raises the lookup error, its final component \<open>""\<close> fails the
  assertion on the qualifier; and for the unknown \<open>"pkg.Date"\<close> the two errors differ in
  the qualifier they quote.
\<close>

theorem create_class_final_component_counterexample:
  "create_field_format_class sample_ext sample_cid ''pkg.''
   = Inl (unknown_class (py_repr sample_ext) (field_format_name_to_class_map sample_cid)
            ''pkg.'' ''FieldFormat'' ''field'' FieldSyntaxError)
   \<and> create_field_format_class sample_ext sample_cid (final_component ''pkg.'')
     = Inl (assertion_failed [])
   \<and> create_field_format_class sample_ext sample_cid ''pkg.Date''
     = Inl (unknown_class (py_repr sample_ext) (field_format_name_to_class_map sample_cid)
              ''pkg.Date'' ''DateFieldFormat'' ''field'' FieldSyntaxError)
   \<and> create_field_format_class sample_ext sample_cid (final_component ''pkg.Date'')
     = Inl (unknown_class (py_repr sample_ext) (field_format_name_to_class_map sample_cid)
              ''Date'' ''DateFieldFormat'' ''field'' FieldSyntaxError)
   \<and> unknown_class (py_repr sample_ext) (field_format_name_to_class_map sample_cid)
        ''pkg.Date'' ''DateFieldFormat'' ''field'' FieldSyntaxError
     \<noteq> unknown_class (py_repr sample_ext) (field_format_name_to_class_map sample_cid)
        ''Date'' ''DateFieldFormat'' ''field'' FieldSyntaxError"
  by code_simp

section \<open>Check rows\<close>

lemma plain_keys_lookup:
  assumes "plain_keys m" and "map_of m (t @ suffix) = Some cls"
  shows "CHR ''.'' \<notin> set t"
proof -
  from assms(2) have "t @ suffix \<in> set (map fst m)"
    by (metis map_of_None_keys option.distinct(1))
  with assms(1) have "CHR ''.'' \<notin> set (t @ suffix)"
    unfolding plain_keys_def list_all_iff by blast
  then show ?thesis by simp
qed

lemma create_check_class_registered:
  assumes "plain_keys (check_name_to_class_map c)"
    and "map_of (check_name_to_class_map c) (t @ ''Check'') = Some cls" and "t \<noteq> []"
  shows "create_check_class e c t = Inr cls"
proof -
  from assms(1,2) have "final_component t = t"
    by (intro final_component_of_plain) (rule plain_keys_lookup)
  moreover from assms(2) have "check_name_to_class_map c \<noteq> []" by auto
  ultimately show ?thesis using assms(2,3)
    by (simp add: create_check_class_def create_class_def)
qed

lemma add_check_selected:
  assumes "plain_keys (check_name_to_class_map c)" and "2 \<le> length items"
    and "1 \<le> i" and "i < length items"
    and "map_of (check_name_to_class_map c) (items ! i @ ''Check'') = Some cls"
    and "\<And>j. i < j \<Longrightarrow> j < length items
           \<Longrightarrow> map_of (check_name_to_class_map c) (items ! j @ ''Check'') = None"
  shows "items ! i = [] \<Longrightarrow> add_check e c items = (Some (unknown_check_type c items), c)"
    and "items ! i \<noteq> [] \<Longrightarrow> length items = 2
           \<Longrightarrow> add_check e c items = store_check e c (items ! 0) cls []"
    and "items ! i \<noteq> [] \<Longrightarrow> i + 1 < length items
           \<Longrightarrow> add_check e c items = store_check e c (items ! 0) cls (items ! (i + 1))"
proof -
  have scan: "scan_check_type (check_name_to_class_map c) items = (Some (items ! i), i + 1)"
    using assms(3,4,5,6) by (intro scan_check_type_last) simp_all
  show "add_check e c items = (Some (unknown_check_type c items), c)" if "items ! i = []"
    using that scan assms(2) by (simp add: add_check_def Let_def)
  have cls: "create_check_class e c (items ! i) = Inr cls" if "items ! i \<noteq> []"
    using assms(1,5) that by (rule create_check_class_registered)
  show "add_check e c items = store_check e c (items ! 0) cls []"
    if "items ! i \<noteq> []" and "length items = 2"
    using that scan cls by (simp add: add_check_def Let_def)
  show "add_check e c items = store_check e c (items ! 0) cls (items ! (i + 1))"
    if "items ! i \<noteq> []" and "i + 1 < length items"
  proof -
    from that(2) assms(3) have "3 \<le> length items" by simp
    with that scan cls show ?thesis by (simp add: add_check_def Let_def)
  qed
qed

text \<open>
  Claim C3, amended. For an object a program can hold and a check row of at least two
  columns: when no column after the description, with \<open>"Check"\<close> appended, is a key of
  the check registry, \<open>add_check\<close> raises the \<open>CheckSyntaxError\<close> of an unknown check
  type. Otherwise let \<open>i\<close> be the last such column and \<open>cls\<close> the class registered
  for it. When the column is empty the same error is raised. When it is not, a row of
  exactly two columns goes on with the class \<open>cls\<close> and the empty rule, and a row that
  has a column \<open>i + 1\<close> goes on with the class \<open>cls\<close> and that single column as the
  rule; the columns after it are not read. (The row of three or more columns whose type
  is in the last column is left out here: claim C9.)
\<close>

theorem add_check_type_and_rule:
  assumes "reachable e c" and "2 \<le> length items"
  shows "((\<forall>j. 1 \<le> j \<and> j < length items \<longrightarrow>
             map_of (check_name_to_class_map c) (items ! j @ ''Check'') = None) \<longrightarrow>
          add_check e c items = (Some (unknown_check_type c items), c))
       \<and> (\<forall>i cls.
            1 \<le> i \<and> i < length items
          \<and> map_of (check_name_to_class_map c) (items ! i @ ''Check'') = Some cls
          \<and> (\<forall>j. i < j \<and> j < length items \<longrightarrow>
                 map_of (check_name_to_class_map c) (items ! j @ ''Check'') = None) \<longrightarrow>
            (items ! i = [] \<longrightarrow> add_check e c items = (Some (unknown_check_type c items), c))
          \<and> (items ! i \<noteq> [] \<and> length items = 2 \<longrightarrow>
               add_check e c items = store_check e c (items ! 0) cls [])
          \<and> (items ! i \<noteq> [] \<and> i + 1 < length items \<longrightarrow>
               add_check e c items = store_check e c (items ! 0) cls (items ! (i + 1))))"
proof (intro conjI allI impI)
  assume "\<forall>j. 1 \<le> j \<and> j < length items \<longrightarrow>
             map_of (check_name_to_class_map c) (items ! j @ ''Check'') = None"
  then have "scan_check_type (check_name_to_class_map c) items = (None, 2)"
    by (intro scan_check_type_none) simp
  with assms(2) show "add_check e c items = (Some (unknown_check_type c items), c)"
    by (simp add: add_check_def Let_def)
next
  fix i cls
  assume h: "1 \<le> i \<and> i < length items
          \<and> map_of (check_name_to_class_map c) (items ! i @ ''Check'') = Some cls
          \<and> (\<forall>j. i < j \<and> j < length items \<longrightarrow>
                 map_of (check_name_to_class_map c) (items ! j @ ''Check'') = None)"
  from assms(1) have plain: "plain_keys (check_name_to_class_map c)"
    using reachable_well_formed by (auto simp add: well_formed_def)
  from h have i: "1 \<le> i" "i < length items"
    and cls: "map_of (check_name_to_class_map c) (items ! i @ ''Check'') = Some cls"
    and last: "\<And>j. i < j \<Longrightarrow> j < length items
           \<Longrightarrow> map_of (check_name_to_class_map c) (items ! j @ ''Check'') = None"
    by simp_all
  note selected = add_check_selected [OF plain assms(2) i cls last]
  show "add_check e c items = (Some (unknown_check_type c items), c)" if "items ! i = []"
    using that selected(1) by blast
  show "add_check e c items = store_check e c (items ! 0) cls []"
    if "items ! i \<noteq> [] \<and> length items = 2"
    using that selected(2) by blast
  show "add_check e c items = store_check e c (items ! 0) cls (items ! (i + 1))"
    if "items ! i \<noteq> [] \<and> i + 1 < length items"
    using that selected(3) by blast
qed

theorem add_check_type_and_rule_witness:
  "add_check sample_ext sample_fixed_cid [''desc1'', [], ''IsUnique'', ''id'']
   = store_check sample_ext sample_fixed_cid ''desc1'' cls_IsUniqueCheck ''id''
   \<and> store_check sample_ext sample_fixed_cid ''desc1'' cls_IsUniqueCheck ''id''
     = (None, check_added sample_fixed_cid (set_cell 1 (at_line 3)) ''desc1''
                (''id'', Some (at_line 3)))"
proof -
  let ?items = "[''desc1'', [], ''IsUnique'', ''id'']"
  let ?m = "check_name_to_class_map sample_fixed_cid"
  have 1: "2 \<le> length ?items" by simp
  have 2: "map_of ?m (?items ! 2 @ ''Check'') = Some cls_IsUniqueCheck"
    by code_simp
  have 3: "map_of ?m (?items ! 3 @ ''Check'') = None"
    by code_simp
  have 4: "\<forall>j. 2 < j \<and> j < length ?items \<longrightarrow> map_of ?m (?items ! j @ ''Check'') = None"
  proof (intro allI impI)
    fix j :: nat
    assume "2 < j \<and> j < length ?items"
    then have "j = 3" by simp
    then show "map_of ?m (?items ! j @ ''Check'') = None"
      using 3 by (simp only:)
  qed
  have 5: "1 \<le> (2::nat) \<and> 2 < length ?items
          \<and> map_of ?m (?items ! 2 @ ''Check'') = Some cls_IsUniqueCheck
          \<and> (\<forall>j. 2 < j \<and> j < length ?items \<longrightarrow> map_of ?m (?items ! j @ ''Check'') = None)"
    using 2 4 by simp
  have 6: "?items ! 2 \<noteq> [] \<and> 2 + 1 < length ?items" by simp
  have "add_check sample_ext sample_fixed_cid ?items
        = store_check sample_ext sample_fixed_cid (?items ! 0) cls_IsUniqueCheck (?items ! (2 + 1))"
    by (rule add_check_type_and_rule
          [OF sample_fixed_cid_reachable 1, THEN conjunct2, THEN spec, THEN spec, THEN mp,
           OF 5, THEN conjunct2, THEN conjunct2, THEN mp, OF 6])
  then have "add_check sample_ext sample_fixed_cid ?items
        = store_check sample_ext sample_fixed_cid ''desc1'' cls_IsUniqueCheck ''id''"
    by simp
  moreover have "store_check sample_ext sample_fixed_cid ''desc1'' cls_IsUniqueCheck ''id''
     = (None, check_added sample_fixed_cid (set_cell 1 (at_line 3)) ''desc1''
                (''id'', Some (at_line 3)))"
    by code_simp
  ultimately show ?thesis by simp
qed

text \<open>
  As stated, for every row of at least two columns the rule is the column that follows
  the type column, the claim fails by design: the row \<open>["desc1", "IsUnique"]\<close> has no
  such column, and the check is stored with the empty rule.
\<close>

theorem add_check_type_and_rule_counterexample:
  "add_check sample_ext sample_fixed_cid [''desc1'', ''IsUnique'']
   = (None, check_added sample_fixed_cid (set_cell 1 (at_line 3)) ''desc1''
              ([], Some (at_line 3)))
   \<and> map_of (check_name_to_class_map sample_fixed_cid) ([''desc1'', ''IsUnique''] ! 1 @ ''Check'')
     = Some cls_IsUniqueCheck
   \<and> length [''desc1'', ''IsUnique''] = 2
   \<and> new_check sample_ext cls_IsUniqueCheck ''desc1'' [] [''id''] (Some (at_line 3))
     = Inr ([], Some (at_line 3))"
  by code_simp






end
